theory Spec2Isabelle
  imports Complex_Main "HOL-Library.Word"
begin

unbundle bit_operations_syntax

section \<open>Python values\<close>

text \<open>
  The plugins exchange JSON with the host: every value they handle is what
  \<^verbatim>\<open>json.load\<close> returns. A Python \<^verbatim>\<open>float\<close> is a finite number, an
  infinity or NaN (\<^verbatim>\<open>json.loads\<close> accepts \<^verbatim>\<open>NaN\<close> and \<^verbatim>\<open>Infinity\<close>). Finite
  doubles are rationals; the plugins only compare and copy floats, so a float literal
  of the source is denoted by its decimal value.

  A Python \<^verbatim>\<open>str\<close> is modelled by \<^typ>\<open>string\<close>, each \<^typ>\<open>char\<close> standing for
  the code point of the same number (0 to 255, the Latin-1 range). A \<^verbatim>\<open>dict\<close> is
  an association list in insertion order, read with \<^const>\<open>map_of\<close>.
\<close>

datatype pyfloat = NaN | NegInf | Finite rat | PosInf

datatype json =
    JNull
  | JBool bool
  | JInt int
  | JFloat pyfloat
  | JStr string
  | JList "json list"
  | JObj "(string \<times> json) list"

text \<open>
  Exceptions. \<^verbatim>\<open>SystemExit\<close> is the only one that is not a subclass of
  \<^verbatim>\<open>Exception\<close>; \<open>BackendError\<close> stands for whatever an external collaborator
  (network client, model runtime, file system, JSON parser) raises.
\<close>

datatype error =
    AttributeError
  | TypeError
  | ValueError
  | KeyError
  | IndexError
  | OverflowError
  | RuntimeError string
  | BackendError string
  | SystemExit string

fun is_Exception :: "error \<Rightarrow> bool" where
  "is_Exception (SystemExit m) = False"
| "is_Exception e = True"

text \<open>
  What the interpreter computes and the repository does not define is a parameter of
  the model: \<^verbatim>\<open>float()\<close> on a string (\<open>None\<close> is \<^verbatim>\<open>ValueError\<close>),
  \<^verbatim>\<open>repr()\<close> of a float and of a string, \<^verbatim>\<open>json.loads\<close>,
  \<^verbatim>\<open>json.dumps(..., sort_keys=True)\<close>, reading a JSON file by its path, and the
  message \<^verbatim>\<open>str(exc)\<close> of an exception the interpreter raises.
\<close>

record runtime =
  float_of_str :: "string \<Rightarrow> pyfloat option"
  repr_float :: "pyfloat \<Rightarrow> string"
  repr_str :: "string \<Rightarrow> string"
  json_loads :: "string \<Rightarrow> error + json"
  dumps_sorted :: "json \<Rightarrow> string"
  read_json_file :: "json \<Rightarrow> error + json"
  exc_message :: "error \<Rightarrow> string"

subsection \<open>Truth value, comparison of floats\<close>

fun truthy :: "json \<Rightarrow> bool" where
  "truthy JNull = False"
| "truthy (JBool b) = b"
| "truthy (JInt i) = (i \<noteq> 0)"
| "truthy (JFloat f) = (f \<noteq> Finite 0)"
| "truthy (JStr s) = (s \<noteq> [])"
| "truthy (JList xs) = (xs \<noteq> [])"
| "truthy (JObj kvs) = (kvs \<noteq> [])"

text \<open>\<^verbatim>\<open>a or b\<close>\<close>

definition py_or :: "json \<Rightarrow> json \<Rightarrow> json" where
  "py_or a b = (if truthy a then a else b)"

text \<open>\<^verbatim>\<open>a < b\<close> on floats: false whenever one side is NaN.\<close>

fun fl_lt :: "pyfloat \<Rightarrow> pyfloat \<Rightarrow> bool" where
  "fl_lt NaN b = False"
| "fl_lt a NaN = False"
| "fl_lt a NegInf = False"
| "fl_lt NegInf b = True"
| "fl_lt PosInf b = False"
| "fl_lt (Finite x) PosInf = True"
| "fl_lt (Finite x) (Finite y) = (x < y)"

text \<open>
  The built-ins \<^verbatim>\<open>min(a, b)\<close> and \<^verbatim>\<open>max(a, b)\<close> keep the first argument
  unless the second is strictly smaller (greater).
\<close>

definition py_min :: "pyfloat \<Rightarrow> pyfloat \<Rightarrow> pyfloat" where
  "py_min a b = (if fl_lt b a then b else a)"

definition py_max :: "pyfloat \<Rightarrow> pyfloat \<Rightarrow> pyfloat" where
  "py_max a b = (if fl_lt a b then b else a)"

subsection \<open>Strings\<close>

text \<open>
  \<^verbatim>\<open>str.isspace\<close> on the Latin-1 range: the ASCII white space, the separators
  U+001C to U+001F, U+0085 and U+00A0.
\<close>

definition is_space :: "char \<Rightarrow> bool" where
  "is_space c = (let n = (of_char c :: nat) in
     (9 \<le> n \<and> n \<le> 13) \<or> (28 \<le> n \<and> n \<le> 32) \<or> n = 133 \<or> n = 160)"

text \<open>\<^verbatim>\<open>s.strip()\<close>\<close>

definition strip :: "string \<Rightarrow> string" where
  "strip s = rev (dropWhile is_space (rev (dropWhile is_space s)))"

text \<open>\<^verbatim>\<open>s.split()\<close>: the maximal runs of characters that are not white space.\<close>

fun split_acc :: "string \<Rightarrow> string \<Rightarrow> string list" where
  "split_acc cur [] = (if cur = [] then [] else [rev cur])"
| "split_acc cur (c # cs) =
     (if is_space c then (if cur = [] then split_acc [] cs else rev cur # split_acc [] cs)
      else split_acc (c # cur) cs)"

definition split :: "string \<Rightarrow> string list" where
  "split s = split_acc [] s"

text \<open>
  \<^verbatim>\<open>s.lower()\<close>: on the Latin-1 range the upper-case letters are A to Z and
  U+00C0 to U+00DE without the multiplication sign U+00D7.
\<close>

definition lower_char :: "char \<Rightarrow> char" where
  "lower_char c = (let n = (of_char c :: nat) in
     if (65 \<le> n \<and> n \<le> 90) \<or> (192 \<le> n \<and> n \<le> 222 \<and> n \<noteq> 215)
     then char_of (n + 32) else c)"

definition lower :: "string \<Rightarrow> string" where
  "lower s = map lower_char s"

text \<open>
  \<^verbatim>\<open>s.isdigit()\<close>: a non-empty string of characters with the Unicode property
  Digit. On the Latin-1 range these are 0 to 9 and the superscripts U+00B2, U+00B3
  and U+00B9.
\<close>

definition is_ascii_digit :: "char \<Rightarrow> bool" where
  "is_ascii_digit c = (let n = (of_char c :: nat) in 48 \<le> n \<and> n \<le> 57)"

definition is_digit_char :: "char \<Rightarrow> bool" where
  "is_digit_char c = (let n = (of_char c :: nat) in
     (48 \<le> n \<and> n \<le> 57) \<or> n = 178 \<or> n = 179 \<or> n = 185)"

definition isdigit :: "string \<Rightarrow> bool" where
  "isdigit s = (s \<noteq> [] \<and> list_all is_digit_char s)"

text \<open>\<^verbatim>\<open>s.startswith(p)\<close>\<close>

definition startswith :: "string \<Rightarrow> string \<Rightarrow> bool" where
  "startswith s p = (take (length p) s = p)"

text \<open>\<^verbatim>\<open>sep.join(xs)\<close>\<close>

fun join :: "string \<Rightarrow> string list \<Rightarrow> string" where
  "join sep [] = []"
| "join sep [x] = x"
| "join sep (x # y # ys) = x @ sep @ join sep (y # ys)"

text \<open>\<^verbatim>\<open>xs.index(x)\<close> for an \<open>x\<close> that occurs in \<open>xs\<close>.\<close>

fun index_of :: "'a \<Rightarrow> 'a list \<Rightarrow> nat" where
  "index_of x [] = 0"
| "index_of x (y # ys) = (if x = y then 0 else Suc (index_of x ys))"

text \<open>\<^verbatim>\<open>str(n)\<close> of an integer: its decimal digits.\<close>

fun str_of_nat :: "nat \<Rightarrow> string" where
  "str_of_nat n =
     (if n < 10 then [char_of (48 + n)]
      else str_of_nat (n div 10) @ [char_of (48 + n mod 10)])"

declare str_of_nat.simps [simp del]

definition str_of_int :: "int \<Rightarrow> string" where
  "str_of_int i = (if i < 0 then CHR ''-'' # str_of_nat (nat (- i)) else str_of_nat (nat i))"

text \<open>
  \<^verbatim>\<open>int(s)\<close> of a string: white space around, an optional sign, decimal digits
  with single underscores between them. Of the Latin-1 characters only 0 to 9 are
  decimal digits. CPython refuses more than 4300 digits.
\<close>

definition int_max_str_digits :: nat where
  "int_max_str_digits = 4300"

fun underscores_ok :: "string \<Rightarrow> bool" where
  "underscores_ok [] = False"
| "underscores_ok [c] = (c \<noteq> CHR ''_'')"
| "underscores_ok (c # d # cs) =
     (c \<noteq> CHR ''_'' \<and> (if d = CHR ''_'' then cs \<noteq> [] \<and> hd cs \<noteq> CHR ''_'' else True)
      \<and> underscores_ok (d # cs))"

definition digits_value :: "string \<Rightarrow> nat" where
  "digits_value ds = foldl (\<lambda>a c. 10 * a + (of_char c - 48)) 0 ds"

definition int_of_str :: "string \<Rightarrow> error + int" where
  "int_of_str s =
     (let t = strip s;
          neg = (t \<noteq> [] \<and> hd t = CHR ''-'');
          body = (if t \<noteq> [] \<and> (hd t = CHR ''-'' \<or> hd t = CHR ''+'') then tl t else t);
          ds = filter (\<lambda>c. c \<noteq> CHR ''_'') body
      in if list_all (\<lambda>c. is_ascii_digit c \<or> c = CHR ''_'') body \<and> underscores_ok body
            \<and> length ds \<le> int_max_str_digits
         then Inr (if neg then - int (digits_value ds) else int (digits_value ds))
         else Inl ValueError)"

subsection \<open>\<^verbatim>\<open>repr\<close>, \<^verbatim>\<open>str\<close> and \<^verbatim>\<open>float\<close> of a value\<close>

primrec py_repr :: "runtime \<Rightarrow> json \<Rightarrow> string" where
  "py_repr rt JNull = ''None''"
| "py_repr rt (JBool b) = (if b then ''True'' else ''False'')"
| "py_repr rt (JInt i) = str_of_int i"
| "py_repr rt (JFloat f) = repr_float rt f"
| "py_repr rt (JStr s) = repr_str rt s"
| "py_repr rt (JList xs) = ''['' @ join '', '' (map (py_repr rt) xs) @ '']''"
| "py_repr rt (JObj kvs) =
     ''{'' @ join '', '' (map (\<lambda>(k, r). repr_str rt k @ '': '' @ r)
                            (map (map_prod id (py_repr rt)) kvs)) @ ''}''"

text \<open>\<^verbatim>\<open>str(v)\<close>, which is also what an f-string field \<^verbatim>\<open>{v}\<close> renders.\<close>

definition py_str :: "runtime \<Rightarrow> json \<Rightarrow> string" where
  "py_str rt v = (case v of JStr s \<Rightarrow> s | _ \<Rightarrow> py_repr rt v)"

text \<open>
  \<^verbatim>\<open>float(i)\<close> of an integer: the nearest double, ties to even, and
  \<^verbatim>\<open>OverflowError\<close> beyond the range of doubles.
\<close>

fun bit_length :: "nat \<Rightarrow> nat" where
  "bit_length n = (if n = 0 then 0 else Suc (bit_length (n div 2)))"

declare bit_length.simps [simp del]

definition float_of_int :: "int \<Rightarrow> error + pyfloat" where
  "float_of_int i =
     (let a = nat \<bar>i\<bar>; sh = bit_length a - 53;
          q = a div 2 ^ sh; r = a mod 2 ^ sh;
          q' = (if 2 * r > 2 ^ sh \<or> (2 * r = 2 ^ sh \<and> odd q) then q + 1 else q);
          m = q' * 2 ^ sh
      in if m \<ge> 2 ^ 1024 then Inl OverflowError
         else Inr (Finite (if i < 0 then - of_nat m else of_nat m)))"

text \<open>\<^verbatim>\<open>float(v)\<close>\<close>

fun py_float :: "runtime \<Rightarrow> json \<Rightarrow> error + pyfloat" where
  "py_float rt JNull = Inl TypeError"
| "py_float rt (JBool b) = Inr (Finite (if b then 1 else 0))"
| "py_float rt (JInt i) = float_of_int i"
| "py_float rt (JFloat f) = Inr f"
| "py_float rt (JStr s) = (case float_of_str rt s of None \<Rightarrow> Inl ValueError | Some f \<Rightarrow> Inr f)"
| "py_float rt (JList xs) = Inl TypeError"
| "py_float rt (JObj kvs) = Inl TypeError"

subsection \<open>Dictionaries and attribute access\<close>

text \<open>\<^verbatim>\<open>d.get(k)\<close> and \<^verbatim>\<open>d.get(k, default)\<close> on a dict.\<close>

definition dict_get :: "(string \<times> json) list \<Rightarrow> string \<Rightarrow> json" where
  "dict_get d k = (case map_of d k of None \<Rightarrow> JNull | Some v \<Rightarrow> v)"

definition dict_get_default :: "(string \<times> json) list \<Rightarrow> string \<Rightarrow> json \<Rightarrow> json" where
  "dict_get_default d k dflt = (case map_of d k of None \<Rightarrow> dflt | Some v \<Rightarrow> v)"

text \<open>
  \<^verbatim>\<open>v.get(k)\<close> on any value: only a dict has the method, every other value raises
  \<^verbatim>\<open>AttributeError\<close>.
\<close>

definition attr_get :: "json \<Rightarrow> string \<Rightarrow> error + json" where
  "attr_get v k = (case v of JObj d \<Rightarrow> Inr (dict_get d k) | _ \<Rightarrow> Inl AttributeError)"

definition attr_get_default :: "json \<Rightarrow> string \<Rightarrow> json \<Rightarrow> error + json" where
  "attr_get_default v k dflt =
     (case v of JObj d \<Rightarrow> Inr (dict_get_default d k dflt) | _ \<Rightarrow> Inl AttributeError)"

text \<open>\<^verbatim>\<open>isinstance(v, dict)\<close>, \<^verbatim>\<open>isinstance(v, list)\<close>\<close>

fun is_dict :: "json \<Rightarrow> bool" where
  "is_dict (JObj d) = True"
| "is_dict v = False"

fun is_list :: "json \<Rightarrow> bool" where
  "is_list (JList xs) = True"
| "is_list v = False"

text \<open>\<^verbatim>\<open>v.strip()\<close>: a method of strings only.\<close>

definition attr_strip :: "json \<Rightarrow> error + string" where
  "attr_strip v = (case v of JStr s \<Rightarrow> Inr (strip s) | _ \<Rightarrow> Inl AttributeError)"

text \<open>
  \<^verbatim>\<open>len(v)\<close>, \<^verbatim>\<open>v[0]\<close> and \<^verbatim>\<open>v[-1]\<close>. A dict read from JSON has string keys
  only, so an integer subscript is a \<^verbatim>\<open>KeyError\<close>.
\<close>

definition py_len :: "json \<Rightarrow> error + nat" where
  "py_len v = (case v of JList xs \<Rightarrow> Inr (length xs) | JStr s \<Rightarrow> Inr (length s)
     | JObj d \<Rightarrow> Inr (length d) | _ \<Rightarrow> Inl TypeError)"

definition py_first :: "json \<Rightarrow> error + json" where
  "py_first v = (case v of
       JList xs \<Rightarrow> (if xs = [] then Inl IndexError else Inr (hd xs))
     | JStr s \<Rightarrow> (if s = [] then Inl IndexError else Inr (JStr [hd s]))
     | JObj d \<Rightarrow> Inl KeyError
     | _ \<Rightarrow> Inl TypeError)"

definition py_last :: "json \<Rightarrow> error + json" where
  "py_last v = (case v of
       JList xs \<Rightarrow> (if xs = [] then Inl IndexError else Inr (last xs))
     | JStr s \<Rightarrow> (if s = [] then Inl IndexError else Inr (JStr [last s]))
     | JObj d \<Rightarrow> Inl KeyError
     | _ \<Rightarrow> Inl TypeError)"

text \<open>\<^verbatim>\<open>d[k]\<close> with a string key.\<close>

definition py_item :: "json \<Rightarrow> string \<Rightarrow> error + json" where
  "py_item v k = (case v of
       JObj d \<Rightarrow> (case map_of d k of None \<Rightarrow> Inl KeyError | Some x \<Rightarrow> Inr x)
     | _ \<Rightarrow> Inl TypeError)"

text \<open>
  Iterating over a value (\<^verbatim>\<open>for x in v\<close>): the elements of a list, the
  characters of a string, the keys of a dict; nothing else is iterable.
\<close>

definition py_iter :: "json \<Rightarrow> error + json list" where
  "py_iter v = (case v of
       JList xs \<Rightarrow> Inr xs
     | JStr s \<Rightarrow> Inr (map (\<lambda>c. JStr [c]) s)
     | JObj d \<Rightarrow> Inr (map (\<lambda>kv. JStr (fst kv)) d)
     | _ \<Rightarrow> Inl TypeError)"

text \<open>Sequencing of computations that may raise.\<close>

definition and_then :: "error + 'a \<Rightarrow> ('a \<Rightarrow> error + 'b) \<Rightarrow> error + 'b" where
  "and_then m f = (case m of Inl e \<Rightarrow> Inl e | Inr x \<Rightarrow> f x)"

section \<open>The LLM plugin: \<^verbatim>\<open>axiograph_llm_plugin_mock.py\<close>\<close>

text \<open>
  A handler writes one JSON object to standard output and returns the exit status:
  its result is the pair of both, or the exception it raises.
\<close>

type_synonym response = "json \<times> int"

definition respond_ok :: "json \<Rightarrow> error + response" where
  "respond_ok payload = Inr (payload, 0)"

definition respond_error :: "string \<Rightarrow> error + response" where
  "respond_error message = Inr (JObj [(''error'', JStr message)], 0)"

definition dquote :: char where
  "dquote = CHR 0x22"

definition build_query_payload :: "string \<Rightarrow> error + json" where
  "build_query_payload question =
     (let tokens = split question;
          lower_toks = map lower tokens
      in
      if ''follow'' \<in> set lower_toks \<or> (take 1 lower_toks = [''from''] \<and> length tokens \<ge> 2)
      then
        (let start = (if take 1 lower_toks = [''from''] \<and> length tokens \<ge> 2
                         \<and> isdigit (tokens ! 1)
                      then tokens ! 1 else ''0'');
             rels = filter (\<lambda>t. startswith t ''rel_'') tokens;
             path = (if rels \<noteq> [] then join ''/'' rels else ''rel_0/rel_1'');
             axql = ''select ?y where '' @ start @ '' -'' @ path @ ''-> ?y limit 20''
         in and_then (int_of_str start) (\<lambda>left.
              Inr (JObj [
                (''query_ir_v1'', JObj [
                   (''version'', JInt 1),
                   (''select'', JList [JStr ''?y'']),
                   (''where'', JList [JObj [(''kind'', JStr ''edge''), (''left'', JInt left),
                                            (''path'', JStr path), (''right'', JStr ''?y'')]]),
                   (''limit'', JInt 20)]),
                (''axql'', JStr axql)])))
      else if take 1 lower_toks = [''find''] \<and> length tokens \<ge> 2
      then
        (let type_name = tokens ! 1;
             name = (if ''named'' \<in> set lower_toks
                     then (let i = index_of ''named'' lower_toks
                           in if i + 1 < length tokens then Some (tokens ! (i + 1)) else None)
                     else None);
             generic = (lower type_name \<in> set [''thing'', ''things'', ''entity'', ''entities'']);
             atoms = (if \<not> generic then [''?x is '' @ type_name] else [])
                   @ (case name of None \<Rightarrow> []
                      | Some n \<Rightarrow> [''?x.name = '' @ [dquote] @ n @ [dquote]]);
             ir_atoms = (if \<not> generic
                         then [JObj [(''kind'', JStr ''type''), (''term'', JStr ''?x''),
                                     (''type'', JStr type_name)]]
                         else [])
                      @ (case name of None \<Rightarrow> []
                         | Some n \<Rightarrow> [JObj [(''kind'', JStr ''attr_eq''), (''term'', JStr ''?x''),
                                            (''key'', JStr ''name''), (''value'', JStr n)]]);
             where_text = (if atoms \<noteq> [] then join '', '' atoms else ''?x is Node'');
             axql = ''select ?x where '' @ where_text @ '' limit 20'';
             ir_atoms' = (if ir_atoms = []
                          then [JObj [(''kind'', JStr ''type''), (''term'', JStr ''?x''),
                                      (''type'', JStr ''Node'')]]
                          else ir_atoms)
         in Inr (JObj [
              (''query_ir_v1'', JObj [(''version'', JInt 1), (''select'', JList [JStr ''?x'']),
                                      (''where'', JList ir_atoms'), (''limit'', JInt 20)]),
              (''axql'', JStr axql)]))
      else
        Inr (JObj [
          (''query_ir_v1'', JObj [
             (''version'', JInt 1),
             (''select'', JList [JStr ''?x'']),
             (''where'', JList [JObj [(''kind'', JStr ''type''), (''term'', JStr ''?x''),
                                      (''type'', JStr ''Node'')]]),
             (''limit'', JInt 20)]),
          (''axql'', JStr ''select ?x where ?x is Node limit 20'')]))"

text \<open>
  \<^verbatim>\<open>respond_to_query\<close> is a second copy of the same templates in the source; it is
  translated from its own lines.
\<close>

definition respond_to_query :: "string \<Rightarrow> error + response" where
  "respond_to_query question =
     (let tokens = split question;
          lower_toks = map lower tokens
      in
      if ''follow'' \<in> set lower_toks \<or> (take 1 lower_toks = [''from''] \<and> length tokens \<ge> 2)
      then
        (let start = (if take 1 lower_toks = [''from''] \<and> length tokens \<ge> 2
                         \<and> isdigit (tokens ! 1)
                      then tokens ! 1 else ''0'');
             rels = filter (\<lambda>t. startswith t ''rel_'') tokens;
             path = (if rels \<noteq> [] then join ''/'' rels else ''rel_0/rel_1'');
             axql = ''select ?y where '' @ start @ '' -'' @ path @ ''-> ?y limit 20''
         in and_then (int_of_str start) (\<lambda>left.
              respond_ok (JObj [
                (''query_ir_v1'', JObj [
                   (''version'', JInt 1),
                   (''select'', JList [JStr ''?y'']),
                   (''where'', JList [JObj [(''kind'', JStr ''edge''), (''left'', JInt left),
                                            (''path'', JStr path), (''right'', JStr ''?y'')]]),
                   (''limit'', JInt 20)]),
                (''axql'', JStr axql)])))
      else if take 1 lower_toks = [''find''] \<and> length tokens \<ge> 2
      then
        (let type_name = tokens ! 1;
             name = (if ''named'' \<in> set lower_toks
                     then (let i = index_of ''named'' lower_toks
                           in if i + 1 < length tokens then Some (tokens ! (i + 1)) else None)
                     else None);
             generic = (lower type_name \<in> set [''thing'', ''things'', ''entity'', ''entities'']);
             atoms = (if \<not> generic then [''?x is '' @ type_name] else [])
                   @ (case name of None \<Rightarrow> []
                      | Some n \<Rightarrow> [''?x.name = '' @ [dquote] @ n @ [dquote]]);
             ir_atoms = (if \<not> generic
                         then [JObj [(''kind'', JStr ''type''), (''term'', JStr ''?x''),
                                     (''type'', JStr type_name)]]
                         else [])
                      @ (case name of None \<Rightarrow> []
                         | Some n \<Rightarrow> [JObj [(''kind'', JStr ''attr_eq''), (''term'', JStr ''?x''),
                                            (''key'', JStr ''name''), (''value'', JStr n)]]);
             where_text = (if atoms \<noteq> [] then join '', '' atoms else ''?x is Node'');
             axql = ''select ?x where '' @ where_text @ '' limit 20'';
             ir_atoms' = (if ir_atoms = []
                          then [JObj [(''kind'', JStr ''type''), (''term'', JStr ''?x''),
                                      (''type'', JStr ''Node'')]]
                          else ir_atoms)
         in respond_ok (JObj [
              (''query_ir_v1'', JObj [(''version'', JInt 1), (''select'', JList [JStr ''?x'']),
                                      (''where'', JList ir_atoms'), (''limit'', JInt 20)]),
              (''axql'', JStr axql)]))
      else
        respond_ok (JObj [
          (''query_ir_v1'', JObj [
             (''version'', JInt 1),
             (''select'', JList [JStr ''?x'']),
             (''where'', JList [JObj [(''kind'', JStr ''type''), (''term'', JStr ''?x''),
                                      (''type'', JStr ''Node'')]]),
             (''limit'', JInt 20)]),
          (''axql'', JStr ''select ?x where ?x is Node limit 20'')]))"

text \<open>
  The loop over \<^verbatim>\<open>first.items()\<close> that renders the bindings of a row; the
  source has it twice, in \<^verbatim>\<open>respond_answer\<close> and in
  \<^verbatim>\<open>respond_tool_loop_step\<close>, with the same body.
\<close>

fun binding_parts :: "runtime \<Rightarrow> (string \<times> json) list \<Rightarrow> string list" where
  "binding_parts rt [] = []"
| "binding_parts rt ((var, v) # rest) =
     (case v of
        JObj d \<Rightarrow>
          (case map_of d ''id'' of
             None \<Rightarrow> []
           | Some idv \<Rightarrow>
               (let name = dict_get d ''name''; et = dict_get d ''entity_type''
                in if truthy name
                   then [var @ ''='' @ py_str rt name @ '' ('' @ py_str rt et
                         @ '', id='' @ py_str rt idv @ '')'']
                   else [var @ ''='' @ py_str rt et @ '' (id='' @ py_str rt idv @ '')'']))
      | _ \<Rightarrow> [])
     @ binding_parts rt rest"

definition respond_answer :: "runtime \<Rightarrow> json \<Rightarrow> error + response" where
  "respond_answer rt task =
     and_then (attr_get task ''results'') (\<lambda>r0.
     and_then (attr_get (py_or r0 (JObj [])) ''rows'') (\<lambda>r1.
     let rows = py_or r1 (JList []) in
     and_then (py_len rows) (\<lambda>n.
     let msg = ''Found '' @ str_of_nat n @ '' result rows.'' in
     if truthy rows
     then and_then (py_first rows) (\<lambda>first.
            case first of
              JObj d \<Rightarrow>
                (let parts = binding_parts rt d
                 in respond_ok (JObj [(''answer'',
                      JStr (if parts \<noteq> [] then msg @ '' First row: '' @ join '', '' parts
                            else msg))]))
            | _ \<Rightarrow> Inl AttributeError)
     else respond_ok (JObj [(''answer'', JStr msg)]))))"

definition respond_tool_loop_step :: "runtime \<Rightarrow> json \<Rightarrow> error + response" where
  "respond_tool_loop_step rt task =
     and_then (attr_get task ''question'') (\<lambda>q0.
     and_then (attr_strip (py_or q0 (JStr ''''))) (\<lambda>question.
     and_then (attr_get task ''transcript'') (\<lambda>t0.
     let transcript = py_or t0 (JList []) in
     if \<not> truthy transcript
     then
       and_then (build_query_payload question) (\<lambda>q_payload.
       and_then (py_item q_payload ''query_ir_v1'') (\<lambda>ir.
         respond_ok (JObj [(''tool_call'',
           JObj [(''name'', JStr ''axql_run''),
                 (''args'', JObj [(''query_ir_v1'', ir), (''limit'', JInt 25)])])])))
     else
       and_then (if truthy transcript then py_last transcript else Inr (JObj [])) (\<lambda>last.
       let done = respond_ok (JObj [(''final_answer'',
             JObj [(''answer'', JStr ''Done.''),
                   (''citations'', JList []),
                   (''queries'', JList []),
                   (''notes'', JList [JStr ''backend=mock_plugin (deterministic)''])])])
       in
       case last of
         JObj ld \<Rightarrow>
           if dict_get ld ''tool'' = JStr ''axql_run''
           then
             (case py_or (dict_get ld ''result'') (JObj []) of
                JObj rd \<Rightarrow>
                  (let query_text = py_or (dict_get rd ''query'') (JStr '''');
                       results = py_or (dict_get rd ''results'') (JObj [])
                   in
                   and_then (attr_get results ''rows'') (\<lambda>r1.
                   let rows = py_or r1 (JList []) in
                   and_then (py_len rows) (\<lambda>n.
                   let msg = ''Found '' @ str_of_nat n @ '' result rows.'' in
                   and_then
                     (if truthy rows
                      then and_then (py_first rows) (\<lambda>first.
                             case first of
                               JObj d \<Rightarrow>
                                 (let parts = binding_parts rt d
                                  in Inr (if parts \<noteq> []
                                          then msg @ '' First row: '' @ join '', '' parts
                                          else msg))
                             | _ \<Rightarrow> Inr msg)
                      else Inr msg) (\<lambda>msg'.
                   respond_ok (JObj [(''final_answer'',
                     JObj [(''answer'', JStr msg'),
                           (''citations'', JList []),
                           (''queries'', if truthy query_text then JList [query_text]
                                         else JList []),
                           (''notes'', JList [JStr ''backend=mock_plugin (deterministic)''])])])))))
              | _ \<Rightarrow> done)
           else done
       | _ \<Rightarrow> done))))"

text \<open>
  The loop of \<^verbatim>\<open>respond_augment_proposals\<close> over the proposals. The rationale
  text of the source holds the arrow U+2192, which is outside the Latin-1 range; it is
  written \<^verbatim>\<open>->\<close> here.
\<close>

fun schema_hint_loop :: "json list \<Rightarrow> error + json list" where
  "schema_hint_loop [] = Inr []"
| "schema_hint_loop (p # ps) =
     (case p of
        JObj d \<Rightarrow>
          (let pid = py_or (dict_get d ''proposal_id'') (JStr '''');
               md = py_or (dict_get d ''metadata'') (JObj []);
               meta_domain = (case md of JObj m \<Rightarrow> dict_get m ''domain'' | _ \<Rightarrow> JNull);
               attrs = py_or (dict_get d ''attributes'') (JObj []);
               attr_domain = (case attrs of JObj a \<Rightarrow> dict_get a ''domain'' | _ \<Rightarrow> JNull)
           in
           and_then (attr_strip (py_or (py_or meta_domain attr_domain) (JStr ''''))) (\<lambda>stripped.
           let domain = lower stripped in
           and_then (schema_hint_loop ps) (\<lambda>rest.
             Inr ((if domain = ''machining'' \<and> truthy pid
                   then [JObj [(''proposal_id'', pid),
                               (''schema_hint'', JStr ''machinist_learning''),
                               (''public_rationale'',
                                JStr ''mock plugin: domain=machining -> machinist_learning'')]]
                   else []) @ rest))))
      | _ \<Rightarrow> schema_hint_loop ps)"

definition added_proposals :: "json list" where
  "added_proposals = [JObj [
      (''kind'', JStr ''Entity''),
      (''proposal_id'', JStr ''concept::mock::0''),
      (''confidence'', JFloat (Finite (6 / 10))),
      (''evidence'', JList []),
      (''public_rationale'', JStr ''mock plugin: added a sample Concept entity''),
      (''metadata'', JObj [(''derived_from'', JStr ''axiograph_llm_plugin_mock'')]),
      (''schema_hint'', JNull),
      (''entity_id'', JStr ''concept::mock::0''),
      (''entity_type'', JStr ''Concept''),
      (''name'', JStr ''MockConcept''),
      (''attributes'', JObj [(''note'', JStr ''deterministic mock'')]),
      (''description'', JStr ''A placeholder concept added by the mock plugin.'')]]"

definition respond_augment_proposals :: "json \<Rightarrow> error + response" where
  "respond_augment_proposals task =
     and_then (attr_get task ''proposals'') (\<lambda>p0.
     and_then (attr_get (py_or p0 (JObj [])) ''proposals'') (\<lambda>p1.
     and_then (py_iter (py_or p1 (JList []))) (\<lambda>proposals.
     and_then (schema_hint_loop proposals) (\<lambda>schema_hint_updates.
       respond_ok (JObj [
         (''schema_hint_updates'', JList schema_hint_updates),
         (''added_proposals'', JList added_proposals),
         (''notes'', JList [JStr (''mock plugin: this is deterministic; replace with a real ''
            @ ''local model runner for semantic labeling'')])])))))"

definition main :: "runtime \<Rightarrow> json \<Rightarrow> error + response" where
  "main rt req =
     and_then (attr_get req ''protocol'') (\<lambda>protocol.
     if protocol \<notin> set [JStr ''axiograph_llm_plugin_v2'', JStr ''axiograph_llm_plugin_v3'']
     then respond_error ''unsupported protocol''
     else
       and_then (attr_get req ''task'') (\<lambda>t0.
       let task = py_or t0 (JObj []) in
       and_then (attr_get task ''kind'') (\<lambda>kind.
       if kind = JStr ''to_query''
       then and_then (attr_get task ''question'') (\<lambda>q0.
            and_then (attr_strip (py_or q0 (JStr ''''))) (\<lambda>question.
              respond_to_query question))
       else if kind = JStr ''answer'' then respond_answer rt task
       else if kind = JStr ''augment_proposals'' then respond_augment_proposals task
       else if kind = JStr ''tool_loop_step'' then respond_tool_loop_step rt task
       else respond_error (''unknown task kind: '' @ py_repr rt kind))))"

text \<open>
  The process: \<^verbatim>\<open>raise SystemExit(main())\<close>. What is written to standard output
  and the exit status; an exception that nobody catches ends the process with status
  1 and a traceback on standard error.
\<close>

record process =
  stdout :: "json list"
  exit_status :: int

definition run_llm_plugin :: "runtime \<Rightarrow> json \<Rightarrow> process" where
  "run_llm_plugin rt req =
     (case main rt req of
        Inl e \<Rightarrow> \<lparr>stdout = [], exit_status = 1\<rparr>
      | Inr (out, rc) \<Rightarrow> \<lparr>stdout = [out], exit_status = rc\<rparr>)"

section \<open>A runtime for the examples\<close>

text \<open>
  The examples below run the plugins on concrete requests. None of them reaches a
  parameter of the runtime, so any will do.
\<close>

definition sample_runtime :: runtime where
  "sample_runtime = \<lparr>float_of_str = (\<lambda>s. None), repr_float = (\<lambda>f. ''0.0''),
     repr_str = (\<lambda>s. s), json_loads = (\<lambda>s. Inl ValueError), dumps_sorted = (\<lambda>v. ''{}''),
     read_json_file = (\<lambda>p. Inl (BackendError ''no such file'')),
     exc_message = (\<lambda>e. ''error'')\<rparr>"

section \<open>The world-model plugins\<close>

subsection \<open>More of Python\<close>

text \<open>\<^verbatim>\<open>d.setdefault(k, v)\<close> and \<^verbatim>\<open>d[k] = v\<close> on a dict.\<close>

definition setdefault :: "(string \<times> json) list \<Rightarrow> string \<Rightarrow> json \<Rightarrow> (string \<times> json) list" where
  "setdefault d k v = (if map_of d k = None then d @ [(k, v)] else d)"

fun dict_set :: "(string \<times> json) list \<Rightarrow> string \<Rightarrow> json \<Rightarrow> (string \<times> json) list" where
  "dict_set [] k v = [(k, v)]"
| "dict_set ((k', v') # d) k v = (if k' = k then (k, v) # d else (k', v') # dict_set d k v)"

text \<open>\<^verbatim>\<open>v[n]\<close> for an index \<open>n\<close> that is not negative.\<close>

definition py_index :: "json \<Rightarrow> nat \<Rightarrow> error + json" where
  "py_index v n = (case v of
       JList xs \<Rightarrow> (if n < length xs then Inr (xs ! n) else Inl IndexError)
     | JStr s \<Rightarrow> (if n < length s then Inr (JStr [s ! n]) else Inl IndexError)
     | JObj d \<Rightarrow> Inl KeyError
     | _ \<Rightarrow> Inl TypeError)"

text \<open>
  \<^verbatim>\<open>v[:n]\<close>: a negative \<open>n\<close> counts from the end. Slicing a dict raises
  \<^verbatim>\<open>TypeError\<close> (\<^verbatim>\<open>KeyError\<close> from Python 3.12 on).
\<close>

definition py_take :: "int \<Rightarrow> 'a list \<Rightarrow> 'a list" where
  "py_take n xs = (if n \<ge> 0 then take (nat n) xs else take (length xs - nat (- n)) xs)"

definition slice_upto :: "json \<Rightarrow> int \<Rightarrow> error + json" where
  "slice_upto v n = (case v of
       JList xs \<Rightarrow> Inr (JList (py_take n xs))
     | JStr s \<Rightarrow> Inr (JStr (py_take n s))
     | _ \<Rightarrow> Inl TypeError)"

text \<open>\<^verbatim>\<open>int(v)\<close>: a float is truncated towards zero.\<close>

fun py_int :: "json \<Rightarrow> error + int" where
  "py_int JNull = Inl TypeError"
| "py_int (JBool b) = Inr (if b then 1 else 0)"
| "py_int (JInt i) = Inr i"
| "py_int (JFloat f) = (case f of
       Finite r \<Rightarrow> Inr (if r \<ge> 0 then \<lfloor>r\<rfloor> else \<lceil>r\<rceil>)
     | NaN \<Rightarrow> Inl ValueError
     | _ \<Rightarrow> Inl OverflowError)"
| "py_int (JStr s) = int_of_str s"
| "py_int (JList xs) = Inl TypeError"
| "py_int (JObj d) = Inl TypeError"

text \<open>\<^verbatim>\<open>str(exc)\<close>\<close>

definition str_exc :: "runtime \<Rightarrow> error \<Rightarrow> string" where
  "str_exc rt e = (case e of
       RuntimeError m \<Rightarrow> m
     | BackendError m \<Rightarrow> m
     | SystemExit m \<Rightarrow> m
     | _ \<Rightarrow> exc_message rt e)"

text \<open>
  A dict whose keys are any hashable values, as the comprehension
  \<^verbatim>\<open>{k: v for (k, v) in fields}\<close> builds it: an association list in insertion
  order. Two keys are the same when Python finds them equal: numbers (and booleans)
  by their value, strings by their text; a NaN equals nothing.
\<close>

fun key_number :: "json \<Rightarrow> pyfloat option" where
  "key_number (JBool b) = Some (Finite (if b then 1 else 0))"
| "key_number (JInt i) = Some (Finite (of_int i))"
| "key_number (JFloat f) = Some f"
| "key_number v = None"

definition py_key_eq :: "json \<Rightarrow> json \<Rightarrow> bool" where
  "py_key_eq a b = (case (key_number a, key_number b) of
       (Some x, Some y) \<Rightarrow> x \<noteq> NaN \<and> x = y
     | (None, None) \<Rightarrow> a = b
     | _ \<Rightarrow> False)"

fun hashable :: "json \<Rightarrow> bool" where
  "hashable (JList xs) = False"
| "hashable (JObj d) = False"
| "hashable v = True"

fun pydict_set :: "(json \<times> json) list \<Rightarrow> json \<Rightarrow> json \<Rightarrow> (json \<times> json) list" where
  "pydict_set [] k v = [(k, v)]"
| "pydict_set ((k', v') # d) k v =
     (if py_key_eq k' k then (k', v) # d else (k', v') # pydict_set d k v)"

fun pydict_get :: "(json \<times> json) list \<Rightarrow> json \<Rightarrow> json \<Rightarrow> json" where
  "pydict_get [] k dflt = dflt"
| "pydict_get ((k', v') # d) k dflt = (if py_key_eq k' k then v' else pydict_get d k dflt)"

text \<open>
  Unpacking \<^verbatim>\<open>(k, v) = x\<close>: \<open>x\<close> must be iterable (\<^verbatim>\<open>TypeError\<close>) and have exactly
  two elements (\<^verbatim>\<open>ValueError\<close>).
\<close>

definition unpack_pair :: "json \<Rightarrow> error + json \<times> json" where
  "unpack_pair x = and_then (py_iter x) (\<lambda>ys.
     case ys of [k, v] \<Rightarrow> Inr (k, v) | _ \<Rightarrow> Inl ValueError)"

fun field_map_loop :: "(json \<times> json) list \<Rightarrow> json list \<Rightarrow> error + (json \<times> json) list" where
  "field_map_loop acc [] = Inr acc"
| "field_map_loop acc (x # xs) =
     and_then (unpack_pair x) (\<lambda>(k, v).
       if hashable k then field_map_loop (pydict_set acc k v) xs else Inl TypeError)"

text \<open>\<^verbatim>\<open>{k: v for (k, v) in fields}\<close>\<close>

definition field_map_of :: "json \<Rightarrow> error + (json \<times> json) list" where
  "field_map_of pairs = and_then (py_iter pairs) (field_map_loop [])"

text \<open>
  Such a dict as \<^verbatim>\<open>json.dumps\<close> writes it: a key that is not a string is rendered
  as its JSON text.
\<close>

definition key_text :: "runtime \<Rightarrow> json \<Rightarrow> string" where
  "key_text rt k = (case k of
       JStr s \<Rightarrow> s
     | JNull \<Rightarrow> ''null''
     | JBool b \<Rightarrow> (if b then ''true'' else ''false'')
     | JInt i \<Rightarrow> str_of_int i
     | _ \<Rightarrow> py_repr rt k)"

definition written_dict :: "runtime \<Rightarrow> (json \<times> json) list \<Rightarrow> json" where
  "written_dict rt d = JObj (map (\<lambda>(k, v). (key_text rt k, v)) d)"

text \<open>\<^verbatim>\<open>_read_stdin_json\<close>, the same in \<^verbatim>\<open>..._real.py\<close> and \<^verbatim>\<open>..._onnx.py\<close>.\<close>

definition read_stdin_json :: "runtime \<Rightarrow> string \<Rightarrow> error + json" where
  "read_stdin_json rt raw =
     (if strip raw = [] then Inl (RuntimeError ''expected JSON request on stdin'')
      else json_loads rt raw)"

subsection \<open>Canonicalization: \<^verbatim>\<open>_normalize_proposals\<close>\<close>

text \<open>
  The body of the loop over the proposals, for a proposal \<open>p\<close> that is a dict at
  position \<open>idx\<close>. The two files that hold \<^verbatim>\<open>_normalize_proposals\<close> have the same
  body but for the default rationale and for how they read \<^verbatim>\<open>kind\<close>
  (\<^verbatim>\<open>p.get("kind")\<close> in \<^verbatim>\<open>..._real.py\<close>, \<^verbatim>\<open>p.get("kind", "Relation")\<close> in
  \<^verbatim>\<open>..._onnx.py\<close>): both are arguments here.
\<close>

definition canonical_proposal ::
    "runtime \<Rightarrow> string \<Rightarrow> json \<Rightarrow> json \<Rightarrow> nat \<Rightarrow> (string \<times> json) list \<Rightarrow> error + json" where
  "canonical_proposal rt rationale kind0 trace_id idx p =
     (let kind = (if lower (py_str rt kind0) = ''entity'' then ''Entity'' else ''Relation'');
          base_id = ''wm::'' @ py_str rt trace_id @ ''::'' @ str_of_nat idx
      in
      and_then (py_float rt (dict_get_default p ''confidence'' (JFloat (Finite (7 / 10))))) (\<lambda>conf.
      let meta = [
            (''proposal_id'', py_or (dict_get p ''proposal_id'') (JStr base_id)),
            (''confidence'', JFloat conf),
            (''evidence'', if is_list (dict_get p ''evidence'') then dict_get p ''evidence''
                           else JList []),
            (''public_rationale'', py_or (dict_get p ''public_rationale'') (JStr rationale)),
            (''metadata'', if is_dict (dict_get p ''metadata'') then dict_get p ''metadata''
                           else JObj []),
            (''schema_hint'', dict_get p ''schema_hint'')]
      in
      if kind = ''Entity''
      then Inr (JObj (meta @ [
             (''kind'', JStr ''Entity''),
             (''entity_id'', py_or (dict_get p ''entity_id'') (JStr (base_id @ '':entity''))),
             (''entity_type'', py_or (dict_get p ''entity_type'') (JStr ''Entity'')),
             (''name'', py_or (py_or (dict_get p ''name'') (dict_get p ''entity_id''))
                              (JStr (''Entity '' @ str_of_nat idx))),
             (''attributes'', if is_dict (dict_get p ''attributes'') then dict_get p ''attributes''
                              else JObj []),
             (''description'', dict_get p ''description'')]))
      else Inr (JObj (meta @ [
             (''kind'', JStr ''Relation''),
             (''relation_id'', py_or (dict_get p ''relation_id'') (JStr (base_id @ '':rel''))),
             (''rel_type'', py_or (dict_get p ''rel_type'') (JStr ''related_to'')),
             (''source'', py_or (dict_get p ''source'') (JStr '''')),
             (''target'', py_or (dict_get p ''target'') (JStr '''')),
             (''attributes'', if is_dict (dict_get p ''attributes'') then dict_get p ''attributes''
                              else JObj [])]))))"

text \<open>
  \<^verbatim>\<open>axiograph_world_model_plugin_real.py\<close>: the loop skips what is not a dict and
  goes on counting.
\<close>

fun fixed_loop :: "runtime \<Rightarrow> json \<Rightarrow> nat \<Rightarrow> json list \<Rightarrow> error + json list" where
  "fixed_loop rt trace_id idx [] = Inr []"
| "fixed_loop rt trace_id idx (p # ps) =
     (case p of
        JObj d \<Rightarrow>
          and_then (canonical_proposal rt ''world model proposal'' (dict_get d ''kind'')
                      trace_id idx d) (\<lambda>r.
          and_then (fixed_loop rt trace_id (Suc idx) ps) (\<lambda>rest. Inr (r # rest)))
      | _ \<Rightarrow> fixed_loop rt trace_id (Suc idx) ps)"

definition normalize_proposals :: "runtime \<Rightarrow> int \<Rightarrow> json \<Rightarrow> json \<Rightarrow> error + json" where
  "normalize_proposals rt now trace_id data =
     (let out0 = (case data of JObj d \<Rightarrow> d | _ \<Rightarrow> []);
          out1 = setdefault out0 ''version'' (JInt 1);
          out2 = setdefault out1 ''generated_at'' (JStr (str_of_int now));
          out3 = setdefault out2 ''source''
                   (JObj [(''source_type'', JStr ''world_model''), (''locator'', trace_id)]);
          out4 = setdefault out3 ''schema_hint'' JNull;
          proposals = (case dict_get_default out4 ''proposals'' (JList []) of
                         JList ps \<Rightarrow> ps | _ \<Rightarrow> [])
      in and_then (fixed_loop rt trace_id 0 proposals) (\<lambda>fixed.
           Inr (JObj (dict_set out4 ''proposals'' (JList fixed)))))"

text \<open>
  \<^verbatim>\<open>axiograph_world_model_plugin_onnx.py\<close>: the loop calls \<^verbatim>\<open>p.get\<close> on every
  element.
\<close>

fun onnx_loop :: "runtime \<Rightarrow> json \<Rightarrow> nat \<Rightarrow> json list \<Rightarrow> error + json list" where
  "onnx_loop rt trace_id idx [] = Inr []"
| "onnx_loop rt trace_id idx (p # ps) =
     (case p of
        JObj d \<Rightarrow>
          and_then (canonical_proposal rt ''onnx world model proposal''
                      (dict_get_default d ''kind'' (JStr ''Relation'')) trace_id idx d) (\<lambda>r.
          and_then (onnx_loop rt trace_id (Suc idx) ps) (\<lambda>rest. Inr (r # rest)))
      | _ \<Rightarrow> Inl AttributeError)"

definition onnx_normalize_proposals :: "runtime \<Rightarrow> int \<Rightarrow> json \<Rightarrow> json list \<Rightarrow> error + json" where
  "onnx_normalize_proposals rt now trace_id proposals =
     and_then (onnx_loop rt trace_id 0 proposals) (\<lambda>fixed.
       Inr (JObj [
         (''version'', JInt 1),
         (''generated_at'', JStr (str_of_int now)),
         (''source'', JObj [(''source_type'', JStr ''world_model''), (''locator'', trace_id)]),
         (''schema_hint'', JNull),
         (''proposals'', JList fixed)]))"

subsection \<open>The guard around \<^verbatim>\<open>main\<close>\<close>

text \<open>
  \<^verbatim>\<open>..._real.py\<close> and \<^verbatim>\<open>..._onnx.py\<close> end in the same lines: \<^verbatim>\<open>main()\<close> in a
  \<^verbatim>\<open>try\<close>, and on any \<^verbatim>\<open>Exception\<close> the error envelope and \<^verbatim>\<open>sys.exit(2)\<close>.
  \<^verbatim>\<open>main\<close> writes its response last, so nothing is on standard output when it
  raises. \<open>t_env\<close> and \<open>t_doc\<close> are the two readings of the clock.
\<close>

definition error_envelope :: "runtime \<Rightarrow> int \<Rightarrow> int \<Rightarrow> error \<Rightarrow> json" where
  "error_envelope rt t_env t_doc exc = JObj [
     (''protocol'', JStr ''axiograph_world_model_v1''),
     (''trace_id'', JStr ''wm::error''),
     (''generated_at_unix_secs'', JInt t_env),
     (''proposals'', JObj [
        (''version'', JInt 1),
        (''generated_at'', JStr (str_of_int t_doc)),
        (''source'', JObj [(''source_type'', JStr ''world_model''), (''locator'', JStr ''error'')]),
        (''schema_hint'', JNull),
        (''proposals'', JList [])]),
     (''notes'', JList []),
     (''error'', JStr (str_exc rt exc))]"

definition main_guard :: "runtime \<Rightarrow> int \<Rightarrow> int \<Rightarrow> error + json \<Rightarrow> process" where
  "main_guard rt t_env t_doc result =
     (case result of
        Inr out \<Rightarrow> \<lparr>stdout = [out], exit_status = 0\<rparr>
      | Inl exc \<Rightarrow>
          if is_Exception exc
          then \<lparr>stdout = [error_envelope rt t_env t_doc exc], exit_status = 2\<rparr>
          else \<lparr>stdout = [], exit_status = 1\<rparr>)"

subsection \<open>\<^verbatim>\<open>axiograph_world_model_plugin_real.py\<close>\<close>

text \<open>
  \<open>backend\<close> stands for the part of \<^verbatim>\<open>main\<close> that is about the vendor:
  summarising the request, choosing the backend from the environment, calling it and
  extracting the JSON object from its reply. It returns the name of the backend and
  the parsed object, or raises.
\<close>

definition real_main ::
    "runtime \<Rightarrow> (json \<Rightarrow> error + string \<times> json) \<Rightarrow> int \<Rightarrow> int \<Rightarrow> string \<Rightarrow> error + json" where
  "real_main rt backend t_doc t_env raw =
     and_then (read_stdin_json rt raw) (\<lambda>req.
     and_then (attr_get_default req ''trace_id'' (JStr ''wm::unknown'')) (\<lambda>trace_id.
     and_then (backend req) (\<lambda>(name, parsed).
     and_then (normalize_proposals rt t_doc trace_id parsed) (\<lambda>proposals.
     and_then (attr_get_default req ''protocol'' (JStr ''axiograph_world_model_v1'')) (\<lambda>protocol.
       Inr (JObj [
         (''protocol'', protocol),
         (''trace_id'', trace_id),
         (''generated_at_unix_secs'', JInt t_env),
         (''proposals'', proposals),
         (''notes'', JList [JStr (''backend='' @ name)]),
         (''error'', JNull)]))))))"

definition run_real ::
    "runtime \<Rightarrow> (json \<Rightarrow> error + string \<times> json) \<Rightarrow> int \<Rightarrow> int \<Rightarrow> string \<Rightarrow> process" where
  "run_real rt backend t_doc t_env raw = main_guard rt t_env t_doc (real_main rt backend t_doc t_env raw)"

subsection \<open>\<^verbatim>\<open>axiograph_world_model_plugin_onnx.py\<close>\<close>

text \<open>
  \<^verbatim>\<open>_stable_hash\<close>: FNV-1a over the UTF-8 bytes of the text, in 32 bits. A code
  point of the Latin-1 range above 127 takes two bytes.
\<close>

definition utf8_encode :: "string \<Rightarrow> 8 word list" where
  "utf8_encode s = concat (map (\<lambda>c.
       let n = (of_char c :: nat)
       in if n < 128 then [of_nat n] else [of_nat (192 + n div 64), of_nat (128 + n mod 64)]) s)"

definition stable_hash :: "string \<Rightarrow> int" where
  "stable_hash s =
     uint (foldl (\<lambda>h b. (h XOR ucast b) * 16777619) (2166136261 :: 32 word) (utf8_encode s))"

text \<open>
  What the plugin gets from its environment: the variable
  \<^verbatim>\<open>WORLD_MODEL_MODEL_PATH\<close> (empty when unset); \<^verbatim>\<open>_load_onnx\<close>, which gives the
  exception it raises, if any; and a run of the model at a path on a seed, which
  raises, returns \<^verbatim>\<open>None\<close>, or returns a result whose first entry \<^verbatim>\<open>float\<close>
  turns into the given score.
\<close>

record onnx_world =
  env_model_path :: string
  load_onnx :: "string \<Rightarrow> error option"
  run_session :: "string \<Rightarrow> int \<Rightarrow> error + pyfloat option"

text \<open>The loop of \<^verbatim>\<open>main\<close> over the export's items.\<close>

fun onnx_items_loop ::
    "runtime \<Rightarrow> onnx_world \<Rightarrow> string \<Rightarrow> nat \<Rightarrow> json list \<Rightarrow> error + json list" where
  "onnx_items_loop rt w model_path idx [] = Inr []"
| "onnx_items_loop rt w model_path idx (it # its) =
     and_then (attr_get it ''relation'') (\<lambda>rel0.
     let rel = py_or rel0 (JStr ''related_to'') in
     and_then (attr_get_default it ''fields'' (JList [])) (\<lambda>f0.
     let fields = py_or f0 (JList []) in
     and_then (if is_list fields then field_map_of fields else Inr []) (\<lambda>field_map.
     and_then (attr_get_default it ''mask_fields'' (JList [])) (\<lambda>m0.
     let mask = py_or m0 (JList []);
         text = dumps_sorted rt (JObj [(''relation'', rel), (''fields'', fields), (''mask'', mask)]);
         seed = stable_hash text
     in
     and_then (run_session w model_path seed) (\<lambda>result.
     let score = (case result of None \<Rightarrow> Finite (7 / 10) | Some s \<Rightarrow> s);
         conf = py_max (Finite (55 / 100)) (py_min (Finite (95 / 100)) score)
     in
     and_then (attr_get it ''schema'') (\<lambda>schema.
     and_then (if truthy fields then and_then (py_index fields 0) (\<lambda>f. py_index f 1)
               else Inr (JStr '''')) (\<lambda>source.
     and_then (and_then (py_len fields) (\<lambda>n.
                 if n > 1 then and_then (py_index fields 1) (\<lambda>f. py_index f 1)
                 else Inr (JStr ''''))) (\<lambda>target.
     let proposal = JObj [
           (''kind'', JStr ''Relation''),
           (''proposal_id'', JStr (''rel::'' @ py_str rt rel @ ''::'' @ str_of_nat idx)),
           (''confidence'', JFloat conf),
           (''evidence'', JList []),
           (''public_rationale'', JStr ''onnx world model prediction''),
           (''metadata'', JObj [(''model_path'', JStr model_path)]),
           (''schema_hint'', schema),
           (''relation_id'', JStr (''rel::'' @ py_str rt rel @ ''::'' @ str_of_nat idx)),
           (''rel_type'', rel),
           (''source'', source),
           (''target'', target),
           (''attributes'', written_dict rt field_map)]
     in
     and_then (onnx_items_loop rt w model_path (Suc idx) its) (\<lambda>rest.
       Inr (proposal # rest))))))))))"

text \<open>
  The proposals \<^verbatim>\<open>main\<close> builds from a request, before it hands them to
  \<^verbatim>\<open>_normalize_proposals\<close>, with the trace id and the model path.
\<close>

definition onnx_proposals ::
    "runtime \<Rightarrow> onnx_world \<Rightarrow> json \<Rightarrow> error + json \<times> string \<times> json list" where
  "onnx_proposals rt w req =
     and_then (attr_get_default req ''trace_id'' (JStr ''wm::onnx'')) (\<lambda>trace_id.
     and_then (attr_get req ''input'') (\<lambda>i0.
     and_then (attr_get (py_or i0 (JObj [])) ''export'') (\<lambda>e0.
     and_then (attr_get_default (py_or e0 (JObj [])) ''items'' (JList [])) (\<lambda>it0.
     let items = py_or it0 (JList []) in
     and_then (attr_get_default req ''options'' (JObj [])) (\<lambda>o0.
     and_then (attr_get (py_or o0 (JObj [])) ''model_path'') (\<lambda>mp0.
     let requested = (case mp0 of JStr s \<Rightarrow> s | _ \<Rightarrow> '''');
         model_path = (if requested \<noteq> [] then requested
                       else if strip (env_model_path w) \<noteq> [] then strip (env_model_path w)
                       else ''models/world_model_small.onnx'')
     in
     and_then (case load_onnx w model_path of Some exc \<Rightarrow> Inl exc | None \<Rightarrow> Inr ()) (\<lambda>session.
     and_then (attr_get req ''options'') (\<lambda>o1.
     and_then (attr_get_default (py_or o1 (JObj [])) ''max_new_proposals'' (JInt 50)) (\<lambda>mn.
     and_then (py_int mn) (\<lambda>max_new.
     and_then (slice_upto items max_new) (\<lambda>sliced.
     and_then (py_iter sliced) (\<lambda>its.
     and_then (onnx_items_loop rt w model_path 0 its) (\<lambda>proposals.
       Inr (trace_id, model_path, proposals))))))))))))))"

definition onnx_main ::
    "runtime \<Rightarrow> onnx_world \<Rightarrow> int \<Rightarrow> int \<Rightarrow> string \<Rightarrow> error + json" where
  "onnx_main rt w t_doc t_env raw =
     and_then (read_stdin_json rt raw) (\<lambda>req.
     and_then (onnx_proposals rt w req) (\<lambda>(trace_id, model_path, proposals).
     and_then (onnx_normalize_proposals rt t_doc trace_id proposals) (\<lambda>proposals_file.
     and_then (attr_get_default req ''protocol'' (JStr ''axiograph_world_model_v1'')) (\<lambda>protocol.
       Inr (JObj [
         (''protocol'', protocol),
         (''trace_id'', trace_id),
         (''generated_at_unix_secs'', JInt t_env),
         (''proposals'', proposals_file),
         (''notes'', JList [JStr (''backend=onnx model='' @ model_path)]),
         (''error'', JNull)])))))"

definition run_onnx :: "runtime \<Rightarrow> onnx_world \<Rightarrow> int \<Rightarrow> int \<Rightarrow> string \<Rightarrow> process" where
  "run_onnx rt w t_doc t_env raw = main_guard rt t_env t_doc (onnx_main rt w t_doc t_env raw)"

subsection \<open>\<^verbatim>\<open>axiograph_world_model_plugin_baseline.py\<close>\<close>

definition infer_endpoints :: "json list \<Rightarrow> json \<times> json" where
  "infer_endpoints field_names =
     (if JStr ''from'' \<in> set field_names \<and> JStr ''to'' \<in> set field_names
      then (JStr ''from'', JStr ''to'')
      else if JStr ''source'' \<in> set field_names \<and> JStr ''target'' \<in> set field_names
      then (JStr ''source'', JStr ''target'')
      else if JStr ''lhs'' \<in> set field_names \<and> JStr ''rhs'' \<in> set field_names
      then (JStr ''lhs'', JStr ''rhs'')
      else if JStr ''child'' \<in> set field_names \<and> JStr ''parent'' \<in> set field_names
      then (JStr ''child'', JStr ''parent'')
      else if length field_names \<ge> 2 then (field_names ! 0, field_names ! 1)
      else (JStr '''', JStr ''''))"

definition load_export :: "runtime \<Rightarrow> json \<Rightarrow> error + json" where
  "load_export rt req =
     and_then (attr_get_default req ''input'' (JObj [])) (\<lambda>i1.
     and_then (attr_get i1 ''export'') (\<lambda>export.
     if truthy export then Inr export
     else
       and_then (attr_get_default req ''input'' (JObj [])) (\<lambda>i2.
       and_then (attr_get i2 ''export_path'') (\<lambda>export_path.
       if truthy export_path then read_json_file rt export_path
       else Inr (JObj [])))))"

text \<open>The command line: \<^verbatim>\<open>--strategy\<close> is \<^verbatim>\<open>oracle\<close> (the default) or \<^verbatim>\<open>random\<close>.\<close>

datatype strategy = Oracle | Random

fun strategy_name :: "strategy \<Rightarrow> string" where
  "strategy_name Oracle = ''oracle''"
| "strategy_name Random = ''random''"

fun baseline_loop :: "runtime \<Rightarrow> strategy \<Rightarrow> nat \<Rightarrow> json list \<Rightarrow> error + json list" where
  "baseline_loop rt st idx [] = Inr []"
| "baseline_loop rt st idx (item # items) =
     and_then (attr_get_default item ''fields'' (JList [])) (\<lambda>fields.
     and_then (field_map_of fields) (\<lambda>field_map.
     let field_names = map fst field_map;
         src_field = fst (infer_endpoints field_names);
         dst_field = snd (infer_endpoints field_names)
     in
     if \<not> truthy src_field \<or> \<not> truthy dst_field
     then baseline_loop rt st (Suc idx) items
     else
       (let src = pydict_get field_map src_field (JStr '''');
            dst = pydict_get field_map dst_field (JStr '''')
        in
        if \<not> truthy src \<or> \<not> truthy dst
        then baseline_loop rt st (Suc idx) items
        else
          and_then (attr_get_default item ''relation'' (JStr ''Rel'')) (\<lambda>rel.
          let proposal_id = ''rel::'' @ py_str rt rel @ ''::'' @ py_str rt src @ ''::''
                            @ py_str rt dst @ ''::'' @ str_of_nat idx
          in
          and_then (attr_get item ''schema'') (\<lambda>schema.
          and_then (field_map_of fields) (\<lambda>attributes.
          let proposal = JObj [
                (''kind'', JStr ''Relation''),
                (''proposal_id'', JStr proposal_id),
                (''confidence'', JFloat (Finite (if st = Oracle then 9 / 10 else 5 / 10))),
                (''evidence'', JList []),
                (''public_rationale'', JStr (''baseline::'' @ strategy_name st)),
                (''metadata'', JObj [(''baseline'', JStr (strategy_name st))]),
                (''schema_hint'', schema),
                (''relation_id'', JStr proposal_id),
                (''rel_type'', rel),
                (''source'', src),
                (''target'', dst),
                (''attributes'', written_dict rt attributes)]
          in
          and_then (baseline_loop rt st (Suc idx) items) (\<lambda>rest.
            Inr (proposal # rest))))))))"

definition baseline_main :: "runtime \<Rightarrow> strategy \<Rightarrow> int \<Rightarrow> int \<Rightarrow> string \<Rightarrow> error + response" where
  "baseline_main rt st t_env t_doc raw =
     and_then (json_loads rt raw) (\<lambda>req.
     and_then (attr_get req ''protocol'') (\<lambda>protocol.
     if protocol \<noteq> JStr ''axiograph_world_model_v1''
     then Inl (SystemExit ''unsupported protocol'')
     else
       and_then (load_export rt req) (\<lambda>export.
       and_then (attr_get_default export ''items'' (JList [])) (\<lambda>items.
       and_then (py_iter items) (\<lambda>its.
       and_then (baseline_loop rt st 0 its) (\<lambda>proposals.
       and_then (attr_get_default req ''trace_id'' (JStr ''wm::baseline'')) (\<lambda>trace_id.
       and_then (attr_get_default req ''trace_id'' (JStr '''')) (\<lambda>locator.
         Inr (JObj [
           (''protocol'', JStr ''axiograph_world_model_v1''),
           (''trace_id'', trace_id),
           (''generated_at_unix_secs'', JInt t_env),
           (''proposals'', JObj [
              (''version'', JInt 1),
              (''generated_at'', JStr (str_of_int t_doc)),
              (''source'', JObj [(''source_type'', JStr ''world_model''), (''locator'', locator)]),
              (''schema_hint'', JNull),
              (''proposals'', JList proposals)]),
           (''notes'', JList [JStr (''baseline strategy='' @ strategy_name st @ '' proposals=''
                                    @ str_of_nat (length proposals))]),
           (''error'', JNull)], 0)))))))))"

text \<open>
  The process: \<^verbatim>\<open>raise SystemExit(main())\<close>, with no handler around it. An
  exception, and \<^verbatim>\<open>SystemExit\<close> with a message, end the process with status 1 and
  with nothing on standard output.
\<close>

definition run_baseline :: "runtime \<Rightarrow> strategy \<Rightarrow> int \<Rightarrow> int \<Rightarrow> string \<Rightarrow> process" where
  "run_baseline rt st t_env t_doc raw =
     (case baseline_main rt st t_env t_doc raw of
        Inl exc \<Rightarrow> \<lparr>stdout = [], exit_status = 1\<rparr>
      | Inr (out, rc) \<Rightarrow> \<lparr>stdout = [out], exit_status = rc\<rparr>)"

subsection \<open>\<^verbatim>\<open>axiograph_world_model_plugin_transformer_stub.py\<close>\<close>

definition stub_main :: "runtime \<Rightarrow> int \<Rightarrow> int \<Rightarrow> string \<Rightarrow> error + response" where
  "stub_main rt t_env t_doc raw =
     and_then (json_loads rt raw) (\<lambda>req.
     and_then (attr_get req ''protocol'') (\<lambda>protocol.
     if protocol \<noteq> JStr ''axiograph_world_model_v1''
     then Inl (SystemExit ''unsupported protocol'')
     else
       and_then (attr_get_default req ''trace_id'' (JStr ''wm::transformer_stub'')) (\<lambda>trace_id.
       and_then (attr_get_default req ''trace_id'' (JStr '''')) (\<lambda>locator.
         Inr (JObj [
           (''protocol'', JStr ''axiograph_world_model_v1''),
           (''trace_id'', trace_id),
           (''generated_at_unix_secs'', JInt t_env),
           (''proposals'', JObj [
              (''version'', JInt 1),
              (''generated_at'', JStr (str_of_int t_doc)),
              (''source'', JObj [(''source_type'', JStr ''world_model''), (''locator'', locator)]),
              (''schema_hint'', JNull),
              (''proposals'', JList [])]),
           (''notes'', JList [JStr ''transformer stub: replace with real model'']),
           (''error'', JNull)], 0)))))"

definition run_stub :: "runtime \<Rightarrow> int \<Rightarrow> int \<Rightarrow> string \<Rightarrow> process" where
  "run_stub rt t_env t_doc raw =
     (case stub_main rt t_env t_doc raw of
        Inl exc \<Rightarrow> \<lparr>stdout = [], exit_status = 1\<rparr>
      | Inr (out, rc) \<Rightarrow> \<lparr>stdout = [out], exit_status = rc\<rparr>)"

section \<open>What the augmentation is meant to compute\<close>

text \<open>
  The domain hint of a proposal as \<^verbatim>\<open>respond_augment_proposals\<close> resolves it:
  \<^verbatim>\<open>metadata.domain\<close> when that is truthy, else \<^verbatim>\<open>attributes.domain\<close> when that
  is truthy, else the empty string. A proposal qualifies for an update when it is a
  dict with a truthy \<^verbatim>\<open>proposal_id\<close> whose resolved domain is a string equal to
  \<^verbatim>\<open>machining\<close> once trimmed and lowered.
\<close>

definition resolved_domain :: "(string \<times> json) list \<Rightarrow> json" where
  "resolved_domain d =
     py_or (py_or (case dict_get d ''metadata'' of JObj m \<Rightarrow> dict_get m ''domain'' | _ \<Rightarrow> JNull)
                  (case dict_get d ''attributes'' of JObj a \<Rightarrow> dict_get a ''domain'' | _ \<Rightarrow> JNull))
           (JStr '''')"

definition domain_is_text :: "json \<Rightarrow> bool" where
  "domain_is_text p = (case p of
       JObj d \<Rightarrow> (case resolved_domain d of JStr s \<Rightarrow> True | _ \<Rightarrow> False)
     | _ \<Rightarrow> True)"

definition qualifies :: "json \<Rightarrow> bool" where
  "qualifies p = (case p of
       JObj d \<Rightarrow> truthy (dict_get d ''proposal_id'')
                  \<and> (case resolved_domain d of
                        JStr s \<Rightarrow> lower (strip s) = ''machining''
                      | _ \<Rightarrow> False)
     | _ \<Rightarrow> False)"

definition hint_update_for :: "json \<Rightarrow> json" where
  "hint_update_for p = (case p of
       JObj d \<Rightarrow> JObj [(''proposal_id'', dict_get d ''proposal_id''),
                        (''schema_hint'', JStr ''machinist_learning''),
                        (''public_rationale'',
                         JStr ''mock plugin: domain=machining -> machinist_learning'')]
     | _ \<Rightarrow> JNull)"

section \<open>Notions for stating the properties\<close>

text \<open>The member \<open>k\<close> of a value that is a dict (\<^verbatim>\<open>None\<close> when absent).\<close>

definition item_of :: "json \<Rightarrow> string \<Rightarrow> json" where
  "item_of v k = (case v of JObj d \<Rightarrow> dict_get d k | _ \<Rightarrow> JNull)"

text \<open>Whether a dict has the key.\<close>

definition has_key :: "json \<Rightarrow> string \<Rightarrow> bool" where
  "has_key v k = (case v of JObj d \<Rightarrow> map_of d k \<noteq> None | _ \<Rightarrow> False)"

text \<open>
  Running a computation that may raise over a list, left to right, up to the first
  exception.
\<close>

fun collect :: "('a \<Rightarrow> error + 'b) \<Rightarrow> 'a list \<Rightarrow> error + 'b list" where
  "collect f [] = Inr []"
| "collect f (x # xs) = and_then (f x) (\<lambda>y. and_then (collect f xs) (\<lambda>ys. Inr (y # ys)))"

text \<open>
  The records that \<^verbatim>\<open>_normalize_proposals\<close> of \<^verbatim>\<open>..._real.py\<close> reads from its
  input: the list under \<^verbatim>\<open>proposals\<close>, or nothing when the input is not a dict or
  has no list there.
\<close>

definition input_proposals :: "json \<Rightarrow> json list" where
  "input_proposals data = (case item_of data ''proposals'' of JList ps \<Rightarrow> ps | _ \<Rightarrow> [])"

text \<open>The map-shaped records with their positions in the input, counted from \<open>n\<close>.\<close>

definition indexed_dicts :: "nat \<Rightarrow> json list \<Rightarrow> (nat \<times> json) list" where
  "indexed_dicts n ps = filter (\<lambda>ip. is_dict (snd ip)) (enumerate n ps)"

text \<open>
  What \<^verbatim>\<open>float\<close> is applied to for a record, \<^verbatim>\<open>p.get("confidence", 0.7)\<close>, and
  whether \<^verbatim>\<open>float\<close> accepts it.
\<close>

definition raw_confidence :: "json \<Rightarrow> json" where
  "raw_confidence p = (if has_key p ''confidence'' then item_of p ''confidence''
                       else JFloat (Finite (7 / 10)))"

definition confidence_converts :: "runtime \<Rightarrow> json \<Rightarrow> bool" where
  "confidence_converts rt p = (case py_float rt (raw_confidence p) of Inr c \<Rightarrow> True | Inl e \<Rightarrow> False)"

text \<open>The kind a record is given: a match of \<^verbatim>\<open>str(kind)\<close>, lowered, with \<^verbatim>\<open>entity\<close>.\<close>

definition coerced_kind :: "runtime \<Rightarrow> json \<Rightarrow> json" where
  "coerced_kind rt p = JStr (if lower (py_str rt (item_of p ''kind'')) = ''entity''
                             then ''Entity'' else ''Relation'')"

text \<open>A proposal whose confidence is a finite float between two bounds.\<close>

definition confidence_within :: "rat \<Rightarrow> rat \<Rightarrow> json \<Rightarrow> bool" where
  "confidence_within lo hi p = (case item_of p ''confidence'' of
       JFloat (Finite r) \<Rightarrow> lo \<le> r \<and> r \<le> hi
     | _ \<Rightarrow> False)"

text \<open>
  The body of the loop of \<^verbatim>\<open>_normalize_proposals\<close> in \<^verbatim>\<open>..._real.py\<close>, on a
  map-shaped record with its position.
\<close>

definition real_body :: "runtime \<Rightarrow> json \<Rightarrow> nat \<times> json \<Rightarrow> error + json" where
  "real_body rt trace_id ip =
     (case snd ip of
        JObj d \<Rightarrow> canonical_proposal rt ''world model proposal'' (dict_get d ''kind'')
                    trace_id (fst ip) d
      | _ \<Rightarrow> Inl AttributeError)"

text \<open>
  A document as a free-form generator may return it: an element that is not a record,
  a record with an out-of-range confidence and wrongly typed \<^verbatim>\<open>evidence\<close> and
  \<^verbatim>\<open>metadata\<close>, a number, and a record with neither confidence nor id.
\<close>

definition sample_document :: json where
  "sample_document = JObj [(''version'', JInt 1), (''proposals'', JList [
      JStr ''junk'',
      JObj [(''kind'', JStr ''ENTITY''), (''confidence'', JFloat (Finite (5 / 2))),
            (''evidence'', JStr ''none''), (''metadata'', JInt 3)],
      JInt 7,
      JObj [(''name'', JStr ''n'')]])]"

text \<open>A runtime whose JSON parser reads the given request from standard input.\<close>

definition reading :: "json \<Rightarrow> runtime" where
  "reading req = sample_runtime\<lparr>json_loads := (\<lambda>raw. Inr req)\<rparr>"

text \<open>
  A world-model request with one exported tuple, and a model that scores every seed
  2.0 (another one fails to load).
\<close>

definition sample_request :: json where
  "sample_request = JObj [
     (''protocol'', JStr ''axiograph_world_model_v1''),
     (''trace_id'', JStr ''t''),
     (''input'', JObj [(''export'', JObj [(''items'', JList [
        JObj [(''relation'', JStr ''knows''),
              (''fields'', JList [JList [JStr ''from'', JStr ''a''],
                                  JList [JStr ''to'', JStr ''b'']])]])])])]"

definition sample_world :: onnx_world where
  "sample_world = \<lparr>env_model_path = '''', load_onnx = (\<lambda>path. None),
     run_session = (\<lambda>path seed. Inr (Some (Finite 2)))\<rparr>"

definition broken_world :: onnx_world where
  "broken_world = \<lparr>env_model_path = '''',
     load_onnx = (\<lambda>path. Some (RuntimeError ''onnxruntime is required'')),
     run_session = (\<lambda>path seed. Inr None)\<rparr>"

text \<open>The keys of a world-model response, in the order the plugins write them.\<close>

definition envelope_keys :: "string list" where
  "envelope_keys = [''protocol'', ''trace_id'', ''generated_at_unix_secs'', ''proposals'',
     ''notes'', ''error'']"

definition is_envelope :: "json \<Rightarrow> bool" where
  "is_envelope v = (case v of JObj d \<Rightarrow> map fst d = envelope_keys | _ \<Rightarrow> False)"

text \<open>Requests for the examples: an unknown protocol, and an export file that is not there.\<close>

definition bogus_request :: json where
  "bogus_request = JObj [(''protocol'', JStr ''bogus''), (''trace_id'', JStr ''t'')]"

definition missing_export_request :: json where
  "missing_export_request = JObj [
     (''protocol'', JStr ''axiograph_world_model_v1''),
     (''input'', JObj [(''export_path'', JStr ''/missing.json'')])]"

section \<open>Basic facts\<close>

lemma and_then_simps [simp]:
  "and_then (Inl e) f = Inl e"
  "and_then (Inr x) f = f x"
  by (simp_all add: and_then_def)

lemma and_then_if:
  "and_then (if c then a else b) f = (if c then and_then a f else and_then b f)"
  by simp

lemma and_then_assoc: "and_then (and_then m f) g = and_then m (\<lambda>x. and_then (f x) g)"
  by (cases m) simp_all

lemma and_then_Inr_iff:
  "and_then m f = Inr y \<longleftrightarrow> (\<exists>x. m = Inr x \<and> f x = Inr y)"
  by (cases m) simp_all

text \<open>The definitions that evaluate the string functions on a literal.\<close>

lemmas str_eval = is_space_def lower_char_def lower_def split_def strip_def isdigit_def
  is_digit_char_def is_ascii_digit_def startswith_def char_of_def bit_iff_odd

text \<open>\<^verbatim>\<open>float\<close> is exact on integers of at most 53 bits.\<close>

lemma bit_length_le: "n < 2 ^ k \<Longrightarrow> bit_length n \<le> k"
proof (induction k arbitrary: n)
  case 0
  then show ?case by (simp add: bit_length.simps)
next
  case (Suc k)
  show ?case
  proof (cases "n = 0")
    case True
    then show ?thesis by (simp add: bit_length.simps)
  next
    case False
    from Suc.prems have "n div 2 < 2 ^ k" by simp
    from Suc.IH [OF this] False show ?thesis
      by (subst bit_length.simps) simp
  qed
qed

lemma float_of_int_small:
  assumes "\<bar>i\<bar> < 2 ^ 53"
  shows "float_of_int i = Inr (Finite (of_int i))"
proof -
  define a where "a = nat \<bar>i\<bar>"
  from assms have a: "a < 2 ^ 53"
    by (simp add: a_def nat_less_iff)
  then have sh: "bit_length a - 53 = 0"
    using bit_length_le [of a 53] by simp
  have "(2 :: nat) ^ 53 \<le> 2 ^ 1024"
    by (rule power_increasing) simp_all
  with a have "a < 2 ^ 1024" by (rule less_le_trans)
  then have small: "\<not> 2 ^ 1024 \<le> a" by (simp only: not_le)
  have m: "(if 2 * (a mod 2 ^ 0) > 2 ^ 0 \<or> (2 * (a mod 2 ^ 0) = 2 ^ 0 \<and> odd (a div 2 ^ 0))
            then a div 2 ^ 0 + 1 else a div 2 ^ 0) * 2 ^ 0 = a"
    by simp
  have fin: "(if i < 0 then - of_nat a else of_nat a :: rat) = of_int i"
    by (simp add: a_def)
  show ?thesis
    unfolding float_of_int_def Let_def a_def [symmetric] sh m fin
    using small by (simp only: if_False)
qed

section \<open>The two query builders agree\<close>

lemma respond_to_query_eq: "respond_to_query q = and_then (build_query_payload q) respond_ok"
  unfolding respond_to_query_def build_query_payload_def
  by (simp only: Let_def and_then_if and_then_assoc and_then_simps)

lemma build_query_payload_shape:
  assumes "build_query_payload q = Inr p"
  shows "\<exists>ir axql. p = JObj [(''query_ir_v1'', ir), (''axql'', JStr axql)]"
proof -
  let ?lt = "map lower (split q)"
  let ?c1 = "''follow'' \<in> set ?lt \<or> (take 1 ?lt = [''from''] \<and> length (split q) \<ge> 2)"
  let ?c2 = "take 1 ?lt = [''find''] \<and> length (split q) \<ge> 2"
  show ?thesis
  proof (cases ?c1)
    case True
    with assms show ?thesis
      unfolding build_query_payload_def Let_def
      by (simp only: if_True) (auto simp: and_then_def split: sum.splits)
  next
    case c1: False
    show ?thesis
    proof (cases ?c2)
      case True
      with c1 assms show ?thesis
        unfolding build_query_payload_def Let_def
        by (simp only: if_True if_False) auto
    next
      case False
      with c1 assms show ?thesis
        unfolding build_query_payload_def Let_def
        by (simp only: if_True if_False) auto
    qed
  qed
qed

lemma tool_first_turn:
  assumes "dict_get t ''question'' = JStr q" "\<not> truthy (dict_get t ''transcript'')"
  shows "respond_tool_loop_step rt (JObj t) =
     and_then (build_query_payload (strip q)) (\<lambda>p.
       and_then (py_item p ''query_ir_v1'') (\<lambda>ir.
         respond_ok (JObj [(''tool_call'',
           JObj [(''name'', JStr ''axql_run''),
                 (''args'', JObj [(''query_ir_v1'', ir), (''limit'', JInt 25)])])])))"
  using assms
  by (simp add: respond_tool_loop_step_def attr_get_def attr_strip_def py_or_def)

lemma dict_get_Nil [simp]: "dict_get [] k = JNull"
  by (simp add: dict_get_def)

lemma main_dispatch:
  assumes "dict_get r ''protocol'' \<in> set [JStr ''axiograph_llm_plugin_v2'', JStr ''axiograph_llm_plugin_v3'']"
    and "dict_get r ''task'' = JObj t"
  shows "main rt (JObj r) =
     (let kind = dict_get t ''kind'' in
      if kind = JStr ''to_query''
      then and_then (attr_strip (py_or (dict_get t ''question'') (JStr ''''))) respond_to_query
      else if kind = JStr ''answer'' then respond_answer rt (JObj t)
      else if kind = JStr ''augment_proposals'' then respond_augment_proposals (JObj t)
      else if kind = JStr ''tool_loop_step'' then respond_tool_loop_step rt (JObj t)
      else respond_error (''unknown task kind: '' @ py_repr rt kind))"
proof (cases "t = []")
  case True
  with assms show ?thesis
    by (auto simp: main_def attr_get_def py_or_def Let_def)
next
  case False
  with assms show ?thesis
    by (auto simp: main_def attr_get_def py_or_def Let_def)
qed

text \<open>
  Claim C5, as the code has it. For every question, the payload that the \<^verbatim>\<open>to_query\<close> task answers
  with (its \<^verbatim>\<open>query_ir_v1\<close> and its \<^verbatim>\<open>axql\<close> text) is the payload that
  \<^verbatim>\<open>build_query_payload\<close> builds for the tool loop, and the tool call of the first
  turn embeds the \<^verbatim>\<open>query_ir_v1\<close> of that payload, and not its \<^verbatim>\<open>axql\<close> text,
  next to a limit of 25. Where the builder raises, both
  tasks raise the same exception. The source holds the templates twice
  (\<^verbatim>\<open>respond_to_query\<close> and \<^verbatim>\<open>build_query_payload\<close>); the two copies compute the
  same payload.
\<close>

theorem to_query_and_tool_call_share_payload:
  assumes "dict_get r1 ''protocol'' \<in> set [JStr ''axiograph_llm_plugin_v2'', JStr ''axiograph_llm_plugin_v3'']"
    and "dict_get r1 ''task'' = JObj t1"
    and "dict_get t1 ''kind'' = JStr ''to_query''"
    and "dict_get t1 ''question'' = JStr q"
    and "dict_get r2 ''protocol'' \<in> set [JStr ''axiograph_llm_plugin_v2'', JStr ''axiograph_llm_plugin_v3'']"
    and "dict_get r2 ''task'' = JObj t2"
    and "dict_get t2 ''kind'' = JStr ''tool_loop_step''"
    and "dict_get t2 ''question'' = JStr q"
    and "\<not> truthy (dict_get t2 ''transcript'')"
  shows "case build_query_payload (strip q) of
           Inl e \<Rightarrow> main rt (JObj r1) = Inl e \<and> main rt (JObj r2) = Inl e
         | Inr p \<Rightarrow>
             (\<exists>ir axql. p = JObj [(''query_ir_v1'', ir), (''axql'', JStr axql)]
                \<and> main rt (JObj r1) = Inr (p, 0)
                \<and> main rt (JObj r2) = Inr (JObj [(''tool_call'',
                     JObj [(''name'', JStr ''axql_run''),
                           (''args'', JObj [(''query_ir_v1'', ir), (''limit'', JInt 25)])])], 0))"
proof -
  have m1: "main rt (JObj r1) = and_then (build_query_payload (strip q)) respond_ok"
    using assms(1-4)
    by (simp add: main_dispatch [where t = t1] Let_def py_or_def attr_strip_def
        respond_to_query_eq)
  have m2: "main rt (JObj r2) = and_then (build_query_payload (strip q)) (\<lambda>p.
       and_then (py_item p ''query_ir_v1'') (\<lambda>ir.
         respond_ok (JObj [(''tool_call'',
           JObj [(''name'', JStr ''axql_run''),
                 (''args'', JObj [(''query_ir_v1'', ir), (''limit'', JInt 25)])])])))"
    using assms(5-9)
    by (simp add: main_dispatch [where t = t2] Let_def tool_first_turn [where q = q])
  show ?thesis
  proof (cases "build_query_payload (strip q)")
    case (Inl e)
    then show ?thesis by (simp add: m1 m2)
  next
    case (Inr p)
    from build_query_payload_shape [OF Inr] obtain ir axql
      where p: "p = JObj [(''query_ir_v1'', ir), (''axql'', JStr axql)]" by blast
    show ?thesis
      by (simp add: Inr m1 m2 p respond_ok_def py_item_def)
  qed
qed

lemma find_node_named_b:
  "build_query_payload ''find Node named b'' = Inr (JObj [
     (''query_ir_v1'', JObj [(''version'', JInt 1), (''select'', JList [JStr ''?x'']),
        (''where'', JList [
           JObj [(''kind'', JStr ''type''), (''term'', JStr ''?x''), (''type'', JStr ''Node'')],
           JObj [(''kind'', JStr ''attr_eq''), (''term'', JStr ''?x''),
                 (''key'', JStr ''name''), (''value'', JStr ''b'')]]),
        (''limit'', JInt 20)]),
     (''axql'', JStr (''select ?x where ?x is Node, ?x.name = '' @ [dquote] @ ''b'' @ [dquote]
         @ '' limit 20''))])"
  by (simp add: build_query_payload_def str_eval Let_def)

lemma strip_find_node: "strip ''find Node named b'' = ''find Node named b''"
  by (simp add: str_eval)

theorem to_query_and_tool_call_share_payload_witness:
  "main sample_runtime (JObj [(''protocol'', JStr ''axiograph_llm_plugin_v2''),
       (''task'', JObj [(''kind'', JStr ''to_query''), (''question'', JStr ''find Node named b'')])])
   = Inr (JObj [
     (''query_ir_v1'', JObj [(''version'', JInt 1), (''select'', JList [JStr ''?x'']),
        (''where'', JList [
           JObj [(''kind'', JStr ''type''), (''term'', JStr ''?x''), (''type'', JStr ''Node'')],
           JObj [(''kind'', JStr ''attr_eq''), (''term'', JStr ''?x''),
                 (''key'', JStr ''name''), (''value'', JStr ''b'')]]),
        (''limit'', JInt 20)]),
     (''axql'', JStr (''select ?x where ?x is Node, ?x.name = '' @ [dquote] @ ''b'' @ [dquote]
         @ '' limit 20''))], 0)
   \<and> main sample_runtime (JObj [(''protocol'', JStr ''axiograph_llm_plugin_v3''),
       (''task'', JObj [(''kind'', JStr ''tool_loop_step''),
                        (''question'', JStr ''find Node named b'')])])
   = Inr (JObj [(''tool_call'', JObj [(''name'', JStr ''axql_run''),
       (''args'', JObj [
          (''query_ir_v1'', JObj [(''version'', JInt 1), (''select'', JList [JStr ''?x'']),
             (''where'', JList [
               JObj [(''kind'', JStr ''type''), (''term'', JStr ''?x''), (''type'', JStr ''Node'')],
               JObj [(''kind'', JStr ''attr_eq''), (''term'', JStr ''?x''),
                     (''key'', JStr ''name''), (''value'', JStr ''b'')]]),
             (''limit'', JInt 20)]),
          (''limit'', JInt 25)])])], 0)"
  using to_query_and_tool_call_share_payload [of
      "[(''protocol'', JStr ''axiograph_llm_plugin_v2''),
        (''task'', JObj [(''kind'', JStr ''to_query''), (''question'', JStr ''find Node named b'')])]"
      "[(''kind'', JStr ''to_query''), (''question'', JStr ''find Node named b'')]"
      "''find Node named b''"
      "[(''protocol'', JStr ''axiograph_llm_plugin_v3''),
        (''task'', JObj [(''kind'', JStr ''tool_loop_step''),
                         (''question'', JStr ''find Node named b'')])]"
      "[(''kind'', JStr ''tool_loop_step''), (''question'', JStr ''find Node named b'')]"
      sample_runtime]
  by (simp add: dict_get_def strip_find_node find_node_named_b)

section \<open>The tool loop\<close>

text \<open>The definitions that evaluate the accessors of a value.\<close>

lemmas json_eval = attr_get_def attr_get_default_def dict_get_def dict_get_default_def py_or_def
  attr_strip_def py_item_def py_len_def py_first_def py_last_def py_iter_def py_str_def
  respond_ok_def respond_error_def

text \<open>
  Claim C8. Asked \<^verbatim>\<open>find Thing named x\<close> with an empty transcript, the plugin
  answers with a tool call, not a final answer: the tool is \<^verbatim>\<open>axql_run\<close>, its
  arguments are the query built for the question (the generic type \<^verbatim>\<open>Thing\<close> is
  left out, the name is matched) and the limit 25. Asked again with a transcript that
  ends in the \<^verbatim>\<open>axql_run\<close> result with the one row binding \<^verbatim>\<open>?x\<close>, whatever
  the earlier entries, it gives a final answer whose text starts with
  \<^verbatim>\<open>Found 1 result rows\<close> and renders the binding as \<^verbatim>\<open>?x=x (Thing, id=7)\<close>.
\<close>

theorem tool_loop_find_thing_named_x:
  "main rt (JObj [(''protocol'', JStr ''axiograph_llm_plugin_v3''),
       (''task'', JObj [(''kind'', JStr ''tool_loop_step''),
                        (''question'', JStr ''find Thing named x''),
                        (''transcript'', JList [])])])
   = Inr (JObj [(''tool_call'', JObj [(''name'', JStr ''axql_run''),
       (''args'', JObj [
          (''query_ir_v1'', JObj [(''version'', JInt 1), (''select'', JList [JStr ''?x'']),
             (''where'', JList [
               JObj [(''kind'', JStr ''attr_eq''), (''term'', JStr ''?x''),
                     (''key'', JStr ''name''), (''value'', JStr ''x'')]]),
             (''limit'', JInt 20)]),
          (''limit'', JInt 25)])])], 0)
   \<and> main rt (JObj [(''protocol'', JStr ''axiograph_llm_plugin_v3''),
       (''task'', JObj [(''kind'', JStr ''tool_loop_step''),
                        (''question'', JStr ''find Thing named x''),
                        (''transcript'', JList (earlier @ [
                           JObj [(''tool'', JStr ''axql_run''),
                                 (''result'', JObj [(''results'', JObj [(''rows'', JList [
                                    JObj [(''?x'', JObj [(''id'', JInt 7), (''name'', JStr ''x''),
                                                         (''entity_type'', JStr ''Thing'')])]])])])]]))])])
   = Inr (JObj [(''final_answer'', JObj [
        (''answer'', JStr ''Found 1 result rows. First row: ?x=x (Thing, id=7)''),
        (''citations'', JList []),
        (''queries'', JList []),
        (''notes'', JList [JStr ''backend=mock_plugin (deterministic)''])])], 0)"
proof -
  have q: "strip ''find Thing named x'' = ''find Thing named x''"
    by (simp add: str_eval)
  have b: "build_query_payload ''find Thing named x'' = Inr (JObj [
     (''query_ir_v1'', JObj [(''version'', JInt 1), (''select'', JList [JStr ''?x'']),
        (''where'', JList [JObj [(''kind'', JStr ''attr_eq''), (''term'', JStr ''?x''),
                                 (''key'', JStr ''name''), (''value'', JStr ''x'')]]),
        (''limit'', JInt 20)]),
     (''axql'', JStr (''select ?x where ?x.name = '' @ [dquote] @ ''x'' @ [dquote] @ '' limit 20''))])"
    by (simp add: build_query_payload_def str_eval Let_def)
  have n: "str_of_nat (Suc 0) = ''1''" "str_of_int 7 = ''7''"
    by (simp_all add: str_of_int_def str_of_nat.simps char_of_def bit_iff_odd)
  show ?thesis
    by (simp add: main_def respond_tool_loop_step_def json_eval q b n Let_def)
qed

text \<open>
  Claim C1 says that a tool loop step with a string question and a list transcript
  answers with a tool call when the transcript is empty and with a final answer
  otherwise. The plugin raises instead on two inputs of that kind. With an empty
  transcript and the question \<^verbatim>\<open>from\<close> followed by the superscript two (U+00B2):
  \<^verbatim>\<open>isdigit\<close> accepts the token and \<^verbatim>\<open>int\<close> refuses it. With a transcript whose
  last entry is an \<^verbatim>\<open>axql_run\<close> result where \<^verbatim>\<open>results\<close> is a list: the
  handler checks that \<^verbatim>\<open>result\<close> is a dict, not that \<^verbatim>\<open>results\<close> is, and calls
  \<^verbatim>\<open>get\<close> on it.
\<close>

theorem tool_loop_step_raises:
  "main rt (JObj [(''protocol'', JStr ''axiograph_llm_plugin_v3''),
       (''task'', JObj [(''kind'', JStr ''tool_loop_step''),
                        (''question'', JStr (''from '' @ [CHR 0xB2])),
                        (''transcript'', JList [])])])
   = Inl ValueError
   \<and> main rt (JObj [(''protocol'', JStr ''axiograph_llm_plugin_v3''),
       (''task'', JObj [(''kind'', JStr ''tool_loop_step''),
                        (''question'', JStr ''find Thing named x''),
                        (''transcript'', JList [
                           JObj [(''tool'', JStr ''axql_run''),
                                 (''result'', JObj [(''results'', JList [JInt 1])])]])])])
   = Inl AttributeError"
proof -
  have q: "strip (''from '' @ [CHR 0xB2]) = ''from '' @ [CHR 0xB2]"
     "strip ''find Thing named x'' = ''find Thing named x''"
    by (simp_all add: str_eval)
  have b: "build_query_payload (''from '' @ [CHR 0xB2]) = Inl ValueError"
    by (simp add: build_query_payload_def str_eval Let_def int_of_str_def)
  show ?thesis
    using q b by (simp add: main_def respond_tool_loop_step_def json_eval Let_def)
qed

section \<open>Augmentation\<close>

lemma qualifies_JObj:
  "qualifies (JObj d) = (truthy (dict_get d ''proposal_id'')
     \<and> (case resolved_domain d of JStr s \<Rightarrow> lower (strip s) = ''machining'' | _ \<Rightarrow> False))"
  by (simp add: qualifies_def)

lemma qualifies_not_dict: "\<not> is_dict p \<Longrightarrow> \<not> qualifies p"
  by (cases p) (simp_all add: qualifies_def)

lemma hint_update_for_JObj:
  "hint_update_for (JObj d) = JObj [(''proposal_id'', dict_get d ''proposal_id''),
      (''schema_hint'', JStr ''machinist_learning''),
      (''public_rationale'', JStr ''mock plugin: domain=machining -> machinist_learning'')]"
  by (simp add: hint_update_for_def)

lemma truthy_py_or_empty [simp]: "truthy (py_or a (JStr [])) = truthy a"
  by (simp add: py_or_def)

lemma py_or_truthy: "truthy a \<Longrightarrow> py_or a b = a"
  by (simp add: py_or_def)

lemma py_or_empty_dict_domain:
  "(case py_or v (JObj []) of JObj m \<Rightarrow> dict_get m ''domain'' | _ \<Rightarrow> JNull)
     = (case v of JObj m \<Rightarrow> dict_get m ''domain'' | _ \<Rightarrow> JNull)"
  by (cases v) (auto simp: py_or_def)

lemma schema_hint_loop_eq:
  "list_all domain_is_text ps \<Longrightarrow>
     schema_hint_loop ps = Inr (map hint_update_for (filter qualifies ps))"
proof (induction ps)
  case Nil
  then show ?case by simp
next
  case (Cons p ps)
  then have ih: "schema_hint_loop ps = Inr (map hint_update_for (filter qualifies ps))"
    by simp
  show ?case
  proof (cases p)
    case (JObj d)
    from Cons.prems JObj obtain s where s: "resolved_domain d = JStr s"
      by (auto simp: domain_is_text_def split: json.splits)
    have rd: "py_or (py_or (case dict_get d ''metadata'' of JObj m \<Rightarrow> dict_get m ''domain'' | _ \<Rightarrow> JNull)
                  (case dict_get d ''attributes'' of JObj a \<Rightarrow> dict_get a ''domain'' | _ \<Rightarrow> JNull))
           (JStr []) = JStr s"
      using s by (simp add: resolved_domain_def)
    show ?thesis
      by (simp add: JObj ih Let_def py_or_empty_dict_domain rd attr_strip_def qualifies_JObj s
          hint_update_for_JObj py_or_truthy)
  qed (use ih in \<open>simp_all add: qualifies_not_dict\<close>)
qed

text \<open>
  Claim C9, as the code has it. When every proposal's resolved domain is a string,
  the response lists one update for each qualifying proposal, in the order of the
  document and with that proposal's id, and nothing else: a proposal qualifies when it
  is a dict with a truthy \<^verbatim>\<open>proposal_id\<close> whose resolved domain (\<^verbatim>\<open>metadata.domain\<close>
  if truthy, else \<^verbatim>\<open>attributes.domain\<close>) is \<^verbatim>\<open>machining\<close> once trimmed and
  lowered.
\<close>

theorem augment_schema_hint_updates:
  assumes "dict_get t ''proposals'' = JObj doc"
    and "dict_get doc ''proposals'' = JList ps"
    and "list_all domain_is_text ps"
  shows "respond_augment_proposals (JObj t) = Inr (JObj [
       (''schema_hint_updates'', JList (map hint_update_for (filter qualifies ps))),
       (''added_proposals'', JList added_proposals),
       (''notes'', JList [JStr (''mock plugin: this is deterministic; replace with a real ''
            @ ''local model runner for semantic labeling'')])], 0)"
proof -
  from assms(2) have "doc \<noteq> []" by (auto simp: dict_get_def)
  then have d: "py_or (JObj doc) (JObj []) = JObj doc" by (simp add: py_or_def)
  have p: "py_or (JList ps) (JList []) = JList ps" by (simp add: py_or_def)
  show ?thesis
    using assms
    by (simp add: respond_augment_proposals_def attr_get_def d p py_iter_def
        schema_hint_loop_eq respond_ok_def)
qed

theorem augment_schema_hint_updates_witness:
  "respond_augment_proposals (JObj [(''kind'', JStr ''augment_proposals''),
       (''proposals'', JObj [(''version'', JInt 1), (''proposals'', JList [
          JObj [(''kind'', JStr ''Entity''), (''proposal_id'', JStr ''p0''),
                (''metadata'', JObj [(''domain'', JStr '' Machining '')])],
          JStr ''noise'',
          JObj [(''kind'', JStr ''Relation''), (''proposal_id'', JStr ''p1''),
                (''metadata'', JObj [(''domain'', JStr ''woodwork'')]),
                (''attributes'', JObj [(''domain'', JStr ''machining'')])],
          JObj [(''kind'', JStr ''Relation''), (''proposal_id'', JStr ''p2''),
                (''attributes'', JObj [(''domain'', JStr ''MACHINING'')])]])])])
   = Inr (JObj [
       (''schema_hint_updates'', JList [
          JObj [(''proposal_id'', JStr ''p0''), (''schema_hint'', JStr ''machinist_learning''),
                (''public_rationale'', JStr ''mock plugin: domain=machining -> machinist_learning'')],
          JObj [(''proposal_id'', JStr ''p2''), (''schema_hint'', JStr ''machinist_learning''),
                (''public_rationale'', JStr ''mock plugin: domain=machining -> machinist_learning'')]]),
       (''added_proposals'', JList added_proposals),
       (''notes'', JList [JStr (''mock plugin: this is deterministic; replace with a real ''
            @ ''local model runner for semantic labeling'')])], 0)"
  using augment_schema_hint_updates [of
    "[(''kind'', JStr ''augment_proposals''),
       (''proposals'', JObj [(''version'', JInt 1), (''proposals'', JList [
          JObj [(''kind'', JStr ''Entity''), (''proposal_id'', JStr ''p0''),
                (''metadata'', JObj [(''domain'', JStr '' Machining '')])],
          JStr ''noise'',
          JObj [(''kind'', JStr ''Relation''), (''proposal_id'', JStr ''p1''),
                (''metadata'', JObj [(''domain'', JStr ''woodwork'')]),
                (''attributes'', JObj [(''domain'', JStr ''machining'')])],
          JObj [(''kind'', JStr ''Relation''), (''proposal_id'', JStr ''p2''),
                (''attributes'', JObj [(''domain'', JStr ''MACHINING'')])]])])]"
    "[(''version'', JInt 1), (''proposals'', JList [
          JObj [(''kind'', JStr ''Entity''), (''proposal_id'', JStr ''p0''),
                (''metadata'', JObj [(''domain'', JStr '' Machining '')])],
          JStr ''noise'',
          JObj [(''kind'', JStr ''Relation''), (''proposal_id'', JStr ''p1''),
                (''metadata'', JObj [(''domain'', JStr ''woodwork'')]),
                (''attributes'', JObj [(''domain'', JStr ''machining'')])],
          JObj [(''kind'', JStr ''Relation''), (''proposal_id'', JStr ''p2''),
                (''attributes'', JObj [(''domain'', JStr ''MACHINING'')])]])]"
    "[JObj [(''kind'', JStr ''Entity''), (''proposal_id'', JStr ''p0''),
                (''metadata'', JObj [(''domain'', JStr '' Machining '')])],
          JStr ''noise'',
          JObj [(''kind'', JStr ''Relation''), (''proposal_id'', JStr ''p1''),
                (''metadata'', JObj [(''domain'', JStr ''woodwork'')]),
                (''attributes'', JObj [(''domain'', JStr ''machining'')])],
          JObj [(''kind'', JStr ''Relation''), (''proposal_id'', JStr ''p2''),
                (''attributes'', JObj [(''domain'', JStr ''MACHINING'')])]]"]
  by (simp add: dict_get_def domain_is_text_def resolved_domain_def qualifies_def
      hint_update_for_def py_or_def str_eval)

text \<open>
  The claim as stated fails: a proposal whose metadata says
  \<^verbatim>\<open>domain = machining\<close> and that has no \<^verbatim>\<open>proposal_id\<close> gets no update.
\<close>

theorem augment_needs_proposal_id:
  "respond_augment_proposals (JObj [(''kind'', JStr ''augment_proposals''),
       (''proposals'', JObj [(''version'', JInt 1), (''proposals'', JList [
          JObj [(''kind'', JStr ''Entity''),
                (''metadata'', JObj [(''domain'', JStr ''machining'')])]])])])
   = Inr (JObj [
       (''schema_hint_updates'', JList []),
       (''added_proposals'', JList added_proposals),
       (''notes'', JList [JStr (''mock plugin: this is deterministic; replace with a real ''
            @ ''local model runner for semantic labeling'')])], 0)"
  by (simp add: respond_augment_proposals_def json_eval Let_def str_eval)

section \<open>Canonicalization\<close>

lemma collect_Inr_iff:
  "collect f xs = Inr ys \<longleftrightarrow> list_all2 (\<lambda>x y. f x = Inr y) xs ys"
proof (induction xs arbitrary: ys)
  case Nil
  then show ?case by auto
next
  case (Cons x xs)
  show ?case
    by (auto simp: and_then_Inr_iff list_all2_Cons1 Cons.IH)
qed

lemma collect_total:
  "list_all (\<lambda>x. \<exists>y. f x = Inr y) xs \<Longrightarrow> \<exists>ys. collect f xs = Inr ys"
proof (induction xs)
  case Nil
  then show ?case by simp
next
  case (Cons x xs)
  then obtain y ys where "f x = Inr y" "collect f xs = Inr ys" by auto
  then show ?case by simp
qed

lemma collect_raises:
  "\<not> list_all (\<lambda>x. \<exists>y. f x = Inr y) xs \<Longrightarrow> \<exists>e. collect f xs = Inl e"
proof (induction xs)
  case Nil
  then show ?case by simp
next
  case (Cons x xs)
  show ?case
  proof (cases "f x")
    case (Inl e)
    then show ?thesis by simp
  next
    case (Inr y)
    with Cons obtain e where "collect f xs = Inl e" by auto
    with Inr show ?thesis by simp
  qed
qed

lemma indexed_dicts_Nil [simp]: "indexed_dicts n [] = []"
  by (simp add: indexed_dicts_def)

lemma indexed_dicts_Cons:
  "indexed_dicts n (p # ps) =
     (if is_dict p then (n, p) # indexed_dicts (Suc n) ps else indexed_dicts (Suc n) ps)"
  by (simp add: indexed_dicts_def)

lemma map_snd_indexed_dicts: "map snd (indexed_dicts n ps) = filter is_dict ps"
  by (induction ps arbitrary: n) (simp_all add: indexed_dicts_Cons)

lemma fixed_loop_collect:
  "fixed_loop rt trace_id n ps = collect (real_body rt trace_id) (indexed_dicts n ps)"
proof (induction ps arbitrary: n)
  case Nil
  then show ?case by simp
next
  case (Cons p ps)
  show ?case
    by (cases p) (simp_all add: indexed_dicts_Cons Cons.IH real_body_def)
qed

lemma map_of_setdefault:
  "map_of (setdefault d k v) k' =
     (case map_of d k' of Some x \<Rightarrow> Some x | None \<Rightarrow> if k' = k then Some v else None)"
  by (auto simp: setdefault_def map_add_def split: option.splits)

lemma map_of_dict_set: "map_of (dict_set d k v) k' = (if k' = k then Some v else map_of d k')"
  by (induction d) auto

lemma input_proposals_run:
  "(case dict_get_default
       (setdefault (setdefault (setdefault (setdefault
          (case data of JObj d \<Rightarrow> d | _ \<Rightarrow> []) ''version'' a) ''generated_at'' b) ''source'' c)
          ''schema_hint'' e) ''proposals'' (JList [])
     of JList ps \<Rightarrow> ps | _ \<Rightarrow> []) = input_proposals data"
  by (cases data)
     (simp_all add: dict_get_default_def map_of_setdefault input_proposals_def item_of_def
        dict_get_def split: option.splits)

lemma normalize_proposals_collect:
  "normalize_proposals rt now trace_id data =
     and_then (collect (real_body rt trace_id) (indexed_dicts 0 (input_proposals data))) (\<lambda>fixed.
       Inr (JObj (dict_set
         (setdefault (setdefault (setdefault (setdefault
            (case data of JObj d \<Rightarrow> d | _ \<Rightarrow> []) ''version'' (JInt 1))
            ''generated_at'' (JStr (str_of_int now)))
            ''source'' (JObj [(''source_type'', JStr ''world_model''), (''locator'', trace_id)]))
            ''schema_hint'' JNull)
         ''proposals'' (JList fixed))))"
  unfolding normalize_proposals_def Let_def input_proposals_run fixed_loop_collect ..

lemma normalize_proposals_returns:
  assumes "collect (real_body rt trace_id) (indexed_dicts 0 (input_proposals data)) = Inr fixed"
  shows "\<exists>out. normalize_proposals rt now trace_id data = Inr (JObj out)
           \<and> dict_get out ''proposals'' = JList fixed"
  by (simp add: normalize_proposals_collect assms dict_get_def map_of_dict_set)

lemma normalize_proposals_raises:
  assumes "collect (real_body rt trace_id) (indexed_dicts 0 (input_proposals data)) = Inl e"
  shows "normalize_proposals rt now trace_id data = Inl e"
  by (simp add: normalize_proposals_collect assms)

lemma normalize_proposals_Inr_iff:
  "normalize_proposals rt now trace_id data = Inr res \<Longrightarrow>
     \<exists>out fixed. res = JObj out \<and> dict_get out ''proposals'' = JList fixed
       \<and> collect (real_body rt trace_id) (indexed_dicts 0 (input_proposals data)) = Inr fixed"
  by (cases "collect (real_body rt trace_id) (indexed_dicts 0 (input_proposals data))")
     (auto simp: normalize_proposals_collect dict_get_def map_of_dict_set)

text \<open>The loop body, record by record.\<close>

lemma raw_confidence_JObj:
  "raw_confidence (JObj d) = dict_get_default d ''confidence'' (JFloat (Finite (7 / 10)))"
  by (simp add: raw_confidence_def has_key_def item_of_def dict_get_default_def dict_get_def
      split: option.splits)

lemma canonical_proposal_raises:
  "py_float rt (raw_confidence (JObj d)) = Inl e \<Longrightarrow>
     canonical_proposal rt rationale k trace_id idx d = Inl e"
  by (simp add: canonical_proposal_def raw_confidence_JObj Let_def)

lemma canonical_proposal_returns:
  assumes "py_float rt (raw_confidence (JObj d)) = Inr c"
  shows "\<exists>r. canonical_proposal rt rationale k trace_id idx d = Inr r
     \<and> item_of r ''confidence'' = JFloat c
     \<and> item_of r ''kind'' = JStr (if lower (py_str rt k) = ''entity'' then ''Entity'' else ''Relation'')
     \<and> item_of r ''proposal_id'' = py_or (dict_get d ''proposal_id'')
          (JStr (''wm::'' @ py_str rt trace_id @ ''::'' @ str_of_nat idx))"
  using assms
  by (simp add: canonical_proposal_def raw_confidence_JObj Let_def item_of_def dict_get_def)

lemma real_body_returns:
  assumes "is_dict p" and "py_float rt (raw_confidence p) = Inr c"
  shows "\<exists>r. real_body rt trace_id (i, p) = Inr r
     \<and> item_of r ''confidence'' = JFloat c
     \<and> item_of r ''kind'' = coerced_kind rt p
     \<and> item_of r ''proposal_id'' = py_or (item_of p ''proposal_id'')
          (JStr (''wm::'' @ py_str rt trace_id @ ''::'' @ str_of_nat i))"
proof -
  from assms(1) obtain d where p: "p = JObj d" by (cases p) simp_all
  from canonical_proposal_returns [OF assms(2) [unfolded p],
      of "''world model proposal''" "dict_get d ''kind''" trace_id i]
  show ?thesis
    by (simp add: p real_body_def coerced_kind_def item_of_def)
qed

lemma real_body_raises:
  assumes "is_dict p" and "py_float rt (raw_confidence p) = Inl e"
  shows "real_body rt trace_id (i, p) = Inl e"
proof -
  from assms(1) obtain d where p: "p = JObj d" by (cases p) simp_all
  from canonical_proposal_raises [OF assms(2) [unfolded p]]
  show ?thesis by (simp add: p real_body_def)
qed

lemma real_body_Inr_iff:
  assumes "is_dict p"
  shows "(\<exists>r. real_body rt trace_id (i, p) = Inr r) \<longleftrightarrow> confidence_converts rt p"
proof (cases "py_float rt (raw_confidence p)")
  case (Inl e)
  with real_body_raises [OF assms Inl] show ?thesis
    by (simp add: confidence_converts_def)
next
  case (Inr c)
  with real_body_returns [OF assms Inr] show ?thesis
    by (auto simp: confidence_converts_def)
qed

lemma is_dict_indexed_dicts: "ip \<in> set (indexed_dicts n ps) \<Longrightarrow> is_dict (snd ip)"
  by (simp add: indexed_dicts_def)

lemma list_all_indexed_dicts:
  "list_all (\<lambda>ip. P (snd ip)) (indexed_dicts n ps) = list_all P (filter is_dict ps)"
proof -
  have "list_all P (map snd (indexed_dicts n ps)) = list_all P (filter is_dict ps)"
    by (simp add: map_snd_indexed_dicts)
  then show ?thesis by (simp add: list_all_iff)
qed

lemma list_all2_indexed_dicts:
  "list_all2 (\<lambda>ip r. P (snd ip) r) (indexed_dicts n ps) rs = list_all2 P (filter is_dict ps) rs"
proof -
  have "list_all2 P (map snd (indexed_dicts n ps)) rs = list_all2 P (filter is_dict ps) rs"
    by (simp add: map_snd_indexed_dicts)
  then show ?thesis by (simp add: list_all2_map1)
qed

lemma collect_real_body_total:
  "(\<exists>fixed. collect (real_body rt trace_id) (indexed_dicts n ps) = Inr fixed)
     \<longleftrightarrow> list_all (confidence_converts rt) (filter is_dict ps)"
proof -
  have "list_all (\<lambda>ip. \<exists>r. real_body rt trace_id ip = Inr r) (indexed_dicts n ps)
      = list_all (\<lambda>ip. confidence_converts rt (snd ip)) (indexed_dicts n ps)"
    unfolding list_all_iff
  proof (intro ball_cong refl)
    fix ip assume "ip \<in> set (indexed_dicts n ps)"
    then have "is_dict (snd ip)" by (rule is_dict_indexed_dicts)
    from real_body_Inr_iff [OF this, of rt trace_id "fst ip"]
    show "(\<exists>r. real_body rt trace_id ip = Inr r) = confidence_converts rt (snd ip)" by simp
  qed
  also have "\<dots> = list_all (confidence_converts rt) (filter is_dict ps)"
    by (rule list_all_indexed_dicts)
  finally have eq: "list_all (\<lambda>ip. \<exists>r. real_body rt trace_id ip = Inr r) (indexed_dicts n ps)
      = list_all (confidence_converts rt) (filter is_dict ps)" .
  show ?thesis
  proof
    assume "\<exists>fixed. collect (real_body rt trace_id) (indexed_dicts n ps) = Inr fixed"
    then obtain fixed where f: "collect (real_body rt trace_id) (indexed_dicts n ps) = Inr fixed" ..
    have "list_all (\<lambda>ip. \<exists>r. real_body rt trace_id ip = Inr r) (indexed_dicts n ps)"
    proof (rule ccontr)
      assume "\<not> list_all (\<lambda>ip. \<exists>r. real_body rt trace_id ip = Inr r) (indexed_dicts n ps)"
      from collect_raises [OF this] f show False by auto
    qed
    with eq show "list_all (confidence_converts rt) (filter is_dict ps)" by simp
  next
    assume "list_all (confidence_converts rt) (filter is_dict ps)"
    with eq have "list_all (\<lambda>ip. \<exists>r. real_body rt trace_id ip = Inr r) (indexed_dicts n ps)"
      by simp
    then show "\<exists>fixed. collect (real_body rt trace_id) (indexed_dicts n ps) = Inr fixed"
      by (rule collect_total)
  qed
qed

text \<open>What every record of a returned list satisfies, next to its input record.\<close>

lemma collect_real_body_records:
  assumes "collect (real_body rt trace_id) (indexed_dicts n ps) = Inr fixed"
  shows "list_all2 (\<lambda>ip r. \<exists>c. py_float rt (raw_confidence (snd ip)) = Inr c
            \<and> item_of r ''confidence'' = JFloat c
            \<and> item_of r ''kind'' = coerced_kind rt (snd ip)
            \<and> item_of r ''proposal_id'' = py_or (item_of (snd ip) ''proposal_id'')
                 (JStr (''wm::'' @ py_str rt trace_id @ ''::'' @ str_of_nat (fst ip))))
         (indexed_dicts n ps) fixed"
proof -
  from assms have "list_all2 (\<lambda>ip r. real_body rt trace_id ip = Inr r) (indexed_dicts n ps) fixed"
    by (simp add: collect_Inr_iff)
  then show ?thesis
  proof (rule list.rel_mono_strong)
    fix ip r
    assume ip: "ip \<in> set (indexed_dicts n ps)" and r: "real_body rt trace_id ip = Inr r"
    from ip have d: "is_dict (snd ip)" by (rule is_dict_indexed_dicts)
    show "\<exists>c. py_float rt (raw_confidence (snd ip)) = Inr c
            \<and> item_of r ''confidence'' = JFloat c
            \<and> item_of r ''kind'' = coerced_kind rt (snd ip)
            \<and> item_of r ''proposal_id'' = py_or (item_of (snd ip) ''proposal_id'')
                 (JStr (''wm::'' @ py_str rt trace_id @ ''::'' @ str_of_nat (fst ip)))"
    proof (cases "py_float rt (raw_confidence (snd ip))")
      case (Inl e)
      from real_body_raises [OF d Inl, of trace_id "fst ip"] r show ?thesis by simp
    next
      case (Inr c)
      from real_body_returns [OF d Inr, of trace_id "fst ip"] r Inr show ?thesis by auto
    qed
  qed
qed

text \<open>
  When canonicalization returns. \<^verbatim>\<open>_normalize_proposals\<close> of \<^verbatim>\<open>..._real.py\<close>
  returns a document exactly
  when \<^verbatim>\<open>float\<close> accepts the confidence of every map-shaped record (a missing
  confidence counts as 0.7); otherwise it raises. When it returns, the document lists
  one record for each map-shaped input record, in order (what is not map-shaped is
  skipped), and the kind of each is \<^verbatim>\<open>Entity\<close> when \<^verbatim>\<open>str(kind)\<close> lowered is
  \<^verbatim>\<open>entity\<close> and \<^verbatim>\<open>Relation\<close> otherwise. No other field can make it raise.
\<close>

lemma normalize_proposals_total_iff_confidence_converts:
  "if list_all (confidence_converts rt) (filter is_dict (input_proposals data))
   then (\<exists>out fixed. normalize_proposals rt now trace_id data = Inr (JObj out)
           \<and> dict_get out ''proposals'' = JList fixed
           \<and> list_all2 (\<lambda>p r. item_of r ''kind'' = coerced_kind rt p)
                (filter is_dict (input_proposals data)) fixed)
   else (\<exists>e. normalize_proposals rt now trace_id data = Inl e)"
proof (cases "list_all (confidence_converts rt) (filter is_dict (input_proposals data))")
  case True
  then obtain fixed
    where f: "collect (real_body rt trace_id) (indexed_dicts 0 (input_proposals data)) = Inr fixed"
    using collect_real_body_total [of rt trace_id 0 "input_proposals data"] by auto
  from normalize_proposals_returns [OF f, of now] obtain out
    where out: "normalize_proposals rt now trace_id data = Inr (JObj out)"
      "dict_get out ''proposals'' = JList fixed" by auto
  have "list_all2 (\<lambda>ip r. item_of r ''kind'' = coerced_kind rt (snd ip))
      (indexed_dicts 0 (input_proposals data)) fixed"
    by (rule list_all2_mono [OF collect_real_body_records [OF f]]) auto
  then have "list_all2 (\<lambda>p r. item_of r ''kind'' = coerced_kind rt p)
      (filter is_dict (input_proposals data)) fixed"
    using list_all2_indexed_dicts [of "\<lambda>p r. item_of r ''kind'' = coerced_kind rt p" 0
        "input_proposals data" fixed]
    by simp
  with out True show ?thesis by auto
next
  case False
  then have "\<not> (\<exists>fixed. collect (real_body rt trace_id) (indexed_dicts 0 (input_proposals data))
      = Inr fixed)"
    using collect_real_body_total [of rt trace_id 0 "input_proposals data"] by simp
  then obtain e
    where "collect (real_body rt trace_id) (indexed_dicts 0 (input_proposals data)) = Inl e"
    by (cases "collect (real_body rt trace_id) (indexed_dicts 0 (input_proposals data))") auto
  from normalize_proposals_raises [OF this] False show ?thesis by auto
qed

text \<open>
  Claim C3, as the code has it. The confidence of a canonical record is what
  \<^verbatim>\<open>float\<close> makes of the input record's confidence (of 0.7 when it has none): the
  value is converted, not clamped, so it lies in [0, 1] exactly when the input's does.
\<close>

theorem normalize_proposals_confidence_is_float_of_input:
  assumes "normalize_proposals rt now trace_id data = Inr res"
  shows "\<exists>fixed. item_of res ''proposals'' = JList fixed
     \<and> list_all2 (\<lambda>p r. \<exists>c. py_float rt (raw_confidence p) = Inr c
                               \<and> item_of r ''confidence'' = JFloat c)
         (filter is_dict (input_proposals data)) fixed"
proof -
  from normalize_proposals_Inr_iff [OF assms] obtain out fixed
    where res: "res = JObj out" "dict_get out ''proposals'' = JList fixed"
      and f: "collect (real_body rt trace_id) (indexed_dicts 0 (input_proposals data)) = Inr fixed"
    by auto
  have "list_all2 (\<lambda>ip r. \<exists>c. py_float rt (raw_confidence (snd ip)) = Inr c
            \<and> item_of r ''confidence'' = JFloat c)
      (indexed_dicts 0 (input_proposals data)) fixed"
    by (rule list_all2_mono [OF collect_real_body_records [OF f]]) auto
  then have "list_all2 (\<lambda>p r. \<exists>c. py_float rt (raw_confidence p) = Inr c
            \<and> item_of r ''confidence'' = JFloat c)
      (filter is_dict (input_proposals data)) fixed"
    using list_all2_indexed_dicts [of "\<lambda>p r. \<exists>c. py_float rt (raw_confidence p) = Inr c
            \<and> item_of r ''confidence'' = JFloat c" 0 "input_proposals data" fixed]
    by simp
  with res show ?thesis by (simp add: item_of_def)
qed

lemma indexed_dicts_nth:
  assumes "i < length ps" and "is_dict (ps ! i)"
  shows "length (filter is_dict (take i ps)) < length (indexed_dicts n ps)
     \<and> indexed_dicts n ps ! length (filter is_dict (take i ps)) = (n + i, ps ! i)"
  using assms
proof (induction ps arbitrary: n i)
  case Nil
  then show ?case by simp
next
  case (Cons p ps)
  show ?case
  proof (cases i)
    case 0
    with Cons.prems show ?thesis by (simp add: indexed_dicts_Cons)
  next
    case (Suc j)
    with Cons.prems have "j < length ps" "is_dict (ps ! j)" by simp_all
    from Cons.IH [OF this, of "Suc n"] Suc show ?thesis
      by (simp add: indexed_dicts_Cons)
  qed
qed

text \<open>
  Claim C4. Let the input record at position \<open>i\<close> be map-shaped, and let
  normalization return. The record's canonical form stands in the output after those
  of the map-shaped records before it. If the input record has no \<^verbatim>\<open>confidence\<close>,
  its canonical confidence is 0.7; if it has no \<^verbatim>\<open>proposal_id\<close>, its canonical id
  is \<^verbatim>\<open>wm::<trace_id>::<i>\<close> with the position \<open>i\<close> in the input, whatever was
  skipped before it.
\<close>

theorem fallbacks_use_the_original_position:
  assumes "normalize_proposals rt now (JStr tid) data = Inr res"
    and "i < length (input_proposals data)"
    and "is_dict (input_proposals data ! i)"
  shows "\<exists>fixed. item_of res ''proposals'' = JList fixed
     \<and> length (filter is_dict (take i (input_proposals data))) < length fixed
     \<and> (\<not> has_key (input_proposals data ! i) ''confidence'' \<longrightarrow>
          item_of (fixed ! length (filter is_dict (take i (input_proposals data)))) ''confidence''
            = JFloat (Finite (7 / 10)))
     \<and> (\<not> has_key (input_proposals data ! i) ''proposal_id'' \<longrightarrow>
          item_of (fixed ! length (filter is_dict (take i (input_proposals data)))) ''proposal_id''
            = JStr (''wm::'' @ tid @ ''::'' @ str_of_nat i))"
proof -
  let ?ps = "input_proposals data"
  let ?j = "length (filter is_dict (take i ?ps))"
  from normalize_proposals_Inr_iff [OF assms(1)] obtain out fixed
    where res: "res = JObj out" "dict_get out ''proposals'' = JList fixed"
      and f: "collect (real_body rt (JStr tid)) (indexed_dicts 0 ?ps) = Inr fixed"
    by auto
  from indexed_dicts_nth [OF assms(2,3), of 0]
  have j: "?j < length (indexed_dicts 0 ?ps)" and nth: "indexed_dicts 0 ?ps ! ?j = (i, ?ps ! i)"
    by simp_all
  note recs = collect_real_body_records [OF f]
  from recs have len: "length (indexed_dicts 0 ?ps) = length fixed"
    by (rule list_all2_lengthD)
  from list_all2_nthD [OF recs j] nth obtain c
    where c: "py_float rt (raw_confidence (?ps ! i)) = Inr c"
      "item_of (fixed ! ?j) ''confidence'' = JFloat c"
      "item_of (fixed ! ?j) ''proposal_id'' = py_or (item_of (?ps ! i) ''proposal_id'')
          (JStr (''wm::'' @ py_str rt (JStr tid) @ ''::'' @ str_of_nat i))"
    by auto
  have conf: "\<not> has_key (?ps ! i) ''confidence'' \<Longrightarrow> c = Finite (7 / 10)"
    using c(1) by (simp add: raw_confidence_def)
  have pid: "\<not> has_key (?ps ! i) ''proposal_id'' \<Longrightarrow> item_of (?ps ! i) ''proposal_id'' = JNull"
    by (cases "?ps ! i") (auto simp: has_key_def item_of_def dict_get_def)
  show ?thesis
    using res j len c conf pid
    by (auto simp: item_of_def py_or_def py_str_def)
qed

section \<open>Canonicalization of the sample document\<close>

lemma sample_document_run:
  "normalize_proposals sample_runtime 17 (JStr ''t'') sample_document
   = Inr (JObj [
       (''version'', JInt 1),
       (''proposals'', JList [
          JObj [(''proposal_id'', JStr ''wm::t::1''),
                (''confidence'', JFloat (Finite (5 / 2))), (''evidence'', JList []),
                (''public_rationale'', JStr ''world model proposal''),
                (''metadata'', JObj []), (''schema_hint'', JNull),
                (''kind'', JStr ''Entity''),
                (''entity_id'', JStr ''wm::t::1:entity''),
                (''entity_type'', JStr ''Entity''),
                (''name'', JStr ''Entity 1''), (''attributes'', JObj []),
                (''description'', JNull)],
          JObj [(''proposal_id'', JStr ''wm::t::3''),
                (''confidence'', JFloat (Finite (7 / 10))),
                (''evidence'', JList []),
                (''public_rationale'', JStr ''world model proposal''),
                (''metadata'', JObj []), (''schema_hint'', JNull),
                (''kind'', JStr ''Relation''),
                (''relation_id'', JStr ''wm::t::3:rel''),
                (''rel_type'', JStr ''related_to''), (''source'', JStr []),
                (''target'', JStr []), (''attributes'', JObj [])]]),
       (''generated_at'', JStr ''17''),
       (''source'', JObj [(''source_type'', JStr ''world_model''), (''locator'', JStr ''t'')]),
       (''schema_hint'', JNull)])"
  by code_simp

lemma sample_document_converts:
  "list_all (confidence_converts sample_runtime) (filter is_dict (input_proposals sample_document))"
  by code_simp

lemma sample_document_is_canonicalized:
  "\<exists>out fixed. normalize_proposals sample_runtime 17 (JStr ''t'') sample_document = Inr (JObj out)
      \<and> dict_get out ''proposals'' = JList fixed
      \<and> list_all2 (\<lambda>p r. item_of r ''kind'' = coerced_kind sample_runtime p)
           (filter is_dict (input_proposals sample_document)) fixed"
  using normalize_proposals_total_iff_confidence_converts
    [of sample_runtime sample_document 17 "JStr ''t''"] sample_document_converts
  by (simp only: if_True)

theorem normalize_proposals_confidence_is_float_of_input_witness:
  "\<exists>res fixed. normalize_proposals sample_runtime 17 (JStr ''t'') sample_document = Inr res
      \<and> item_of res ''proposals'' = JList fixed
      \<and> list_all2 (\<lambda>p r. \<exists>c. py_float sample_runtime (raw_confidence p) = Inr c
                                \<and> item_of r ''confidence'' = JFloat c)
           (filter is_dict (input_proposals sample_document)) fixed"
  using normalize_proposals_confidence_is_float_of_input [OF sample_document_run]
    sample_document_run
  by blast

text \<open>
  The claim as stated fails: the confidence 2.5 of the sample document's first record
  is passed through, not clamped into [0, 1].
\<close>

theorem normalize_proposals_does_not_clamp:
  "\<exists>res fixed. normalize_proposals sample_runtime 17 (JStr ''t'') sample_document = Inr res
      \<and> item_of res ''proposals'' = JList fixed
      \<and> item_of (fixed ! 0) ''confidence'' = JFloat (Finite (5 / 2))
      \<and> \<not> confidence_within 0 1 (fixed ! 0)"
  by (rule exI, rule exI, intro conjI, rule sample_document_run)
     (simp add: item_of_def dict_get_def confidence_within_def)+

theorem fallbacks_use_the_original_position_witness:
  "\<exists>res fixed. normalize_proposals sample_runtime 17 (JStr ''t'') sample_document = Inr res
      \<and> item_of res ''proposals'' = JList fixed
      \<and> 1 < length fixed
      \<and> item_of (fixed ! 1) ''confidence'' = JFloat (Finite (7 / 10))
      \<and> item_of (fixed ! 1) ''proposal_id'' = JStr ''wm::t::3''"
proof -
  have i: "3 < length (input_proposals sample_document)"
    by (simp add: input_proposals_def sample_document_def item_of_def dict_get_def)
  have d: "is_dict (input_proposals sample_document ! 3)"
    by (simp add: input_proposals_def sample_document_def item_of_def dict_get_def)
  have j: "length (filter is_dict (take 3 (input_proposals sample_document))) = 1"
    by (simp add: input_proposals_def sample_document_def item_of_def dict_get_def)
  have k: "\<not> has_key (input_proposals sample_document ! 3) ''confidence''"
      "\<not> has_key (input_proposals sample_document ! 3) ''proposal_id''"
    by (simp_all add: input_proposals_def sample_document_def item_of_def dict_get_def has_key_def)
  have s: "str_of_nat 3 = ''3''"
    by (simp add: str_of_nat.simps char_of_def bit_iff_odd)
  from fallbacks_use_the_original_position [OF sample_document_run i d]
  obtain fixed where "item_of (projr (normalize_proposals sample_runtime 17 (JStr ''t'')
        sample_document)) ''proposals'' = JList fixed"
      "1 < length fixed"
      "item_of (fixed ! 1) ''confidence'' = JFloat (Finite (7 / 10))"
      "item_of (fixed ! 1) ''proposal_id'' = JStr ''wm::t::3''"
    unfolding j using k s by (auto simp: sample_document_run)
  with sample_document_run show ?thesis by auto
qed

section \<open>The ONNX plugin clamps its scores\<close>

lemma and_then_InrE:
  assumes "and_then m f = Inr y"
  obtains x where "m = Inr x" and "f x = Inr y"
  using assms by (cases m) auto

lemma clamp_between:
  assumes "lo \<le> hi"
  shows "\<exists>r. py_max (Finite lo) (py_min (Finite hi) score) = Finite r \<and> lo \<le> r \<and> r \<le> hi"
  using assms by (cases score) (auto simp: py_max_def py_min_def)

lemma confidence_within_JObj:
  "confidence_within lo hi (JObj d) =
     (case dict_get d ''confidence'' of JFloat (Finite r) \<Rightarrow> lo \<le> r \<and> r \<le> hi | _ \<Rightarrow> False)"
  by (simp add: confidence_within_def item_of_def)

lemma onnx_items_loop_Cons:
  assumes "onnx_items_loop rt w model_path idx (it # its) = Inr ps"
  shows "\<exists>p rest score. ps = p # rest
     \<and> onnx_items_loop rt w model_path (Suc idx) its = Inr rest
     \<and> item_of p ''confidence'' = JFloat (py_max (Finite (55 / 100)) (py_min (Finite (95 / 100)) score))"
  using assms
  apply (simp only: onnx_items_loop.simps Let_def)
  apply (elim and_then_InrE)
  apply (simp only: sum.inject)
  apply (intro exI conjI)
    apply (rule sym, assumption)
   apply (rule refl)
  apply (simp add: item_of_def dict_get_def)
  done

lemma onnx_items_loop_clamped:
  "onnx_items_loop rt w model_path idx its = Inr ps \<Longrightarrow>
     list_all (confidence_within (55 / 100) (95 / 100)) ps"
proof (induction its arbitrary: idx ps)
  case Nil
  then show ?case by simp
next
  case (Cons it its)
  from onnx_items_loop_Cons [OF Cons.prems] obtain p rest score
    where ps: "ps = p # rest"
      and rest: "onnx_items_loop rt w model_path (Suc idx) its = Inr rest"
      and conf: "item_of p ''confidence''
          = JFloat (py_max (Finite (55 / 100)) (py_min (Finite (95 / 100)) score))"
    by blast
  from clamp_between [of "55 / 100" "95 / 100" score] obtain r
    where "py_max (Finite (55 / 100)) (py_min (Finite (95 / 100)) score) = Finite r"
      "55 / 100 \<le> r" "r \<le> 95 / 100"
    by auto
  with conf have "confidence_within (55 / 100) (95 / 100) p"
    by (simp add: confidence_within_def)
  with Cons.IH [OF rest] ps show ?case by simp
qed

lemma onnx_proposals_clamped:
  assumes "onnx_proposals rt w req = Inr (trace_id, model_path, built)"
  shows "list_all (confidence_within (55 / 100) (95 / 100)) built"
  using assms
  apply (simp only: onnx_proposals_def Let_def)
  apply (elim and_then_InrE)
  apply (simp only: sum.inject prod.inject)
  apply (elim conjE)
  apply hypsubst
  apply (erule onnx_items_loop_clamped)
  done

text \<open>Canonicalization keeps a confidence that is a float already.\<close>

lemma canonical_proposal_keeps_confidence:
  assumes "canonical_proposal rt rationale k trace_id idx d = Inr r"
    and "confidence_within lo hi (JObj d)"
  shows "confidence_within lo hi r"
proof -
  from assms(2) obtain c where c: "dict_get d ''confidence'' = JFloat (Finite c)"
      and b: "lo \<le> c" "c \<le> hi"
    by (auto simp: confidence_within_JObj split: json.splits pyfloat.splits)
  from c have "map_of d ''confidence'' = Some (JFloat (Finite c))"
    by (auto simp: dict_get_def split: option.splits)
  then have "py_float rt (raw_confidence (JObj d)) = Inr (Finite c)"
    by (simp add: raw_confidence_JObj dict_get_default_def)
  from canonical_proposal_returns [OF this, of rationale k trace_id idx] assms(1) b
  show ?thesis by (auto simp: confidence_within_def)
qed

lemma onnx_loop_keeps_confidence:
  "onnx_loop rt trace_id idx ps = Inr fixed \<Longrightarrow> list_all (confidence_within lo hi) ps \<Longrightarrow>
     list_all (confidence_within lo hi) fixed \<and> length fixed = length ps"
proof (induction ps arbitrary: idx fixed)
  case Nil
  then show ?case by simp
next
  case (Cons p ps)
  from Cons.prems(2) obtain d where p: "p = JObj d"
    by (cases p) (auto simp: confidence_within_def item_of_def)
  from Cons.prems(1) obtain r rest
    where r: "canonical_proposal rt ''onnx world model proposal''
                (dict_get_default d ''kind'' (JStr ''Relation'')) trace_id idx d = Inr r"
      and rest: "onnx_loop rt trace_id (Suc idx) ps = Inr rest"
      and fixed: "fixed = r # rest"
    by (auto simp: p and_then_Inr_iff)
  from canonical_proposal_keeps_confidence [OF r] Cons.prems(2) p
  have "confidence_within lo hi r" by simp
  with Cons.IH [OF rest] Cons.prems(2) fixed show ?case by simp
qed

text \<open>
  Claim C10. Whatever the model returns, every proposal that \<^verbatim>\<open>main\<close> of the ONNX
  plugin builds from the export's items has a finite confidence between 0.55 and 0.95,
  and so has every proposal of the document it writes.
\<close>

theorem onnx_confidence_is_clamped:
  "(onnx_proposals rt w req = Inr (trace_id, model_path, built) \<longrightarrow>
      list_all (confidence_within (55 / 100) (95 / 100)) built)
   \<and> (onnx_main rt w t_doc t_env raw = Inr out \<longrightarrow>
        (\<exists>doc fixed. item_of out ''proposals'' = JObj doc
           \<and> dict_get doc ''proposals'' = JList fixed
           \<and> list_all (confidence_within (55 / 100) (95 / 100)) fixed))"
proof (intro conjI impI)
  assume "onnx_proposals rt w req = Inr (trace_id, model_path, built)"
  then show "list_all (confidence_within (55 / 100) (95 / 100)) built"
    by (rule onnx_proposals_clamped)
next
  assume m: "onnx_main rt w t_doc t_env raw = Inr out"
  from m [unfolded onnx_main_def] obtain rq
    where m1: "and_then (onnx_proposals rt w rq) (\<lambda>(trace_id, model_path, proposals).
       and_then (onnx_normalize_proposals rt t_doc trace_id proposals) (\<lambda>proposals_file.
       and_then (attr_get_default rq ''protocol'' (JStr ''axiograph_world_model_v1'')) (\<lambda>protocol.
         Inr (JObj [
           (''protocol'', protocol),
           (''trace_id'', trace_id),
           (''generated_at_unix_secs'', JInt t_env),
           (''proposals'', proposals_file),
           (''notes'', JList [JStr (''backend=onnx model='' @ model_path)]),
           (''error'', JNull)])))) = Inr out"
    by (rule and_then_InrE)
  from m1 obtain t
    where b0: "onnx_proposals rt w rq = Inr t"
      and m2: "(case t of (trace_id, model_path, proposals) \<Rightarrow>
       and_then (onnx_normalize_proposals rt t_doc trace_id proposals) (\<lambda>proposals_file.
       and_then (attr_get_default rq ''protocol'' (JStr ''axiograph_world_model_v1'')) (\<lambda>protocol.
         Inr (JObj [
           (''protocol'', protocol),
           (''trace_id'', trace_id),
           (''generated_at_unix_secs'', JInt t_env),
           (''proposals'', proposals_file),
           (''notes'', JList [JStr (''backend=onnx model='' @ model_path)]),
           (''error'', JNull)])))) = Inr out"
    by (rule and_then_InrE)
  obtain tid mp ps where t: "t = (tid, mp, ps)" by (cases t)
  from m2 obtain pf
    where n: "onnx_normalize_proposals rt t_doc tid ps = Inr pf"
      and m3: "and_then (attr_get_default rq ''protocol'' (JStr ''axiograph_world_model_v1''))
        (\<lambda>protocol.
         Inr (JObj [
           (''protocol'', protocol),
           (''trace_id'', tid),
           (''generated_at_unix_secs'', JInt t_env),
           (''proposals'', pf),
           (''notes'', JList [JStr (''backend=onnx model='' @ mp)]),
           (''error'', JNull)])) = Inr out"
    unfolding t prod.case by (rule and_then_InrE)
  from m3 have out: "item_of out ''proposals'' = pf"
    by (rule and_then_InrE) (auto simp: item_of_def dict_get_def)
  from n [unfolded onnx_normalize_proposals_def] obtain fixed
    where l: "onnx_loop rt tid 0 ps = Inr fixed"
      and pf: "Inr (JObj [
         (''version'', JInt 1),
         (''generated_at'', JStr (str_of_int t_doc)),
         (''source'', JObj [(''source_type'', JStr ''world_model''), (''locator'', tid)]),
         (''schema_hint'', JNull),
         (''proposals'', JList fixed)]) = (Inr pf :: error + json)"
    by (rule and_then_InrE)
  from pf have doc: "\<exists>doc. pf = JObj doc \<and> dict_get doc ''proposals'' = JList fixed"
    by (auto simp: dict_get_def)
  from b0 t have b: "onnx_proposals rt w rq = Inr (tid, mp, ps)" by simp
  from onnx_loop_keeps_confidence [OF l onnx_proposals_clamped [OF b]]
  have "list_all (confidence_within (55 / 100) (95 / 100)) fixed" by simp
  with out doc show "\<exists>doc fixed. item_of out ''proposals'' = JObj doc
           \<and> dict_get doc ''proposals'' = JList fixed
           \<and> list_all (confidence_within (55 / 100) (95 / 100)) fixed"
    by auto
qed

section \<open>What the world-model plugins write\<close>

lemma and_then_pair_InrE:
  assumes "and_then m (\<lambda>(a, b). f a b) = Inr y"
  obtains a b where "m = Inr (a, b)" and "f a b = Inr y"
  using assms by (cases m) auto

lemma and_then_triple_InrE:
  assumes "and_then m (\<lambda>(a, b, c). f a b c) = Inr y"
  obtains a b c where "m = Inr (a, b, c)" and "f a b c = Inr y"
  using assms by (cases m) auto

lemma if_Inl_InrE:
  assumes "(if c then Inl e else m) = Inr y"
  obtains "\<not> c" and "m = Inr y"
  using assms by (cases c) auto

lemma attr_get_default_InrE:
  assumes "attr_get_default v k dflt = Inr x"
  obtains d where "v = JObj d" and "x = dict_get_default d k dflt"
  using assms by (cases v) (auto simp: attr_get_default_def)

lemma attr_get_InrE:
  assumes "attr_get v k = Inr x"
  obtains d where "v = JObj d" and "x = dict_get d k"
  using assms by (cases v) (auto simp: attr_get_def)

lemma real_main_returns:
  assumes "real_main rt backend t_doc t_env raw = Inr out"
  shows "\<exists>d tid doc notes. read_stdin_json rt raw = Inr (JObj d)
     \<and> out = JObj [
         (''protocol'', dict_get_default d ''protocol'' (JStr ''axiograph_world_model_v1'')),
         (''trace_id'', tid),
         (''generated_at_unix_secs'', JInt t_env),
         (''proposals'', doc),
         (''notes'', notes),
         (''error'', JNull)]"
  using assms unfolding real_main_def
  apply (erule_tac and_then_InrE)
  apply (erule_tac and_then_InrE)
  apply (erule_tac and_then_pair_InrE)
  apply (erule_tac and_then_InrE)
  apply (erule_tac and_then_InrE)
  apply (erule_tac attr_get_default_InrE)+
  apply (simp only: sum.inject prod.inject json.inject)
  apply ((elim conjE)?, hypsubst)
  apply simp
  done

lemma onnx_main_returns:
  assumes "onnx_main rt w t_doc t_env raw = Inr out"
  shows "\<exists>d tid doc notes. read_stdin_json rt raw = Inr (JObj d)
     \<and> out = JObj [
         (''protocol'', dict_get_default d ''protocol'' (JStr ''axiograph_world_model_v1'')),
         (''trace_id'', tid),
         (''generated_at_unix_secs'', JInt t_env),
         (''proposals'', doc),
         (''notes'', notes),
         (''error'', JNull)]"
  using assms unfolding onnx_main_def
  apply (erule_tac and_then_InrE)
  apply (erule_tac and_then_triple_InrE)
  apply (erule_tac and_then_InrE)
  apply (erule_tac and_then_InrE)
  apply (erule_tac attr_get_default_InrE)
  apply (simp only: sum.inject prod.inject json.inject)
  apply ((elim conjE)?, hypsubst)
  apply simp
  done

lemma baseline_main_returns:
  assumes "baseline_main rt st t_env t_doc raw = Inr (out, rc)"
  shows "rc = 0 \<and> (\<exists>d tid doc notes. json_loads rt raw = Inr (JObj d)
     \<and> dict_get d ''protocol'' = JStr ''axiograph_world_model_v1''
     \<and> out = JObj [
         (''protocol'', JStr ''axiograph_world_model_v1''),
         (''trace_id'', tid),
         (''generated_at_unix_secs'', JInt t_env),
         (''proposals'', doc),
         (''notes'', notes),
         (''error'', JNull)])"
  using assms unfolding baseline_main_def
  apply (erule_tac and_then_InrE)
  apply (erule_tac and_then_InrE)
  apply (erule_tac if_Inl_InrE)
  apply (erule_tac and_then_InrE)+
  apply (erule_tac attr_get_InrE)
  apply (simp only: sum.inject prod.inject json.inject)
  apply ((elim conjE)?, hypsubst)
  apply simp
  done

lemma stub_main_returns:
  assumes "stub_main rt t_env t_doc raw = Inr (out, rc)"
  shows "rc = 0 \<and> (\<exists>d tid doc notes. json_loads rt raw = Inr (JObj d)
     \<and> dict_get d ''protocol'' = JStr ''axiograph_world_model_v1''
     \<and> out = JObj [
         (''protocol'', JStr ''axiograph_world_model_v1''),
         (''trace_id'', tid),
         (''generated_at_unix_secs'', JInt t_env),
         (''proposals'', doc),
         (''notes'', notes),
         (''error'', JNull)])"
  using assms unfolding stub_main_def
  apply (erule_tac and_then_InrE)
  apply (erule_tac and_then_InrE)
  apply (erule_tac if_Inl_InrE)
  apply (erule_tac and_then_InrE)+
  apply (erule_tac attr_get_InrE)
  apply (simp only: sum.inject prod.inject json.inject)
  apply ((elim conjE)?, hypsubst)
  apply simp
  done

lemma is_envelope_error_envelope:
  "is_envelope (error_envelope rt t_env t_doc exc)
   \<and> item_of (error_envelope rt t_env t_doc exc) ''error'' = JStr (str_exc rt exc)
   \<and> item_of (item_of (error_envelope rt t_env t_doc exc) ''proposals'') ''proposals'' = JList []"
  by (simp add: is_envelope_def envelope_keys_def error_envelope_def item_of_def dict_get_def)

lemma main_guard_raises:
  assumes "result = Inl exc" and "is_Exception exc"
  shows "main_guard rt t_env t_doc result
     = \<lparr>stdout = [error_envelope rt t_env t_doc exc], exit_status = 2\<rparr>"
  using assms by (simp add: main_guard_def)

lemma main_guard_returns:
  assumes "result = Inr out"
  shows "main_guard rt t_env t_doc result = \<lparr>stdout = [out], exit_status = 0\<rparr>"
  using assms by (simp add: main_guard_def)

lemma run_real_raises:
  assumes "real_main rt backend t_doc t_env raw = Inl exc" and "is_Exception exc"
  shows "run_real rt backend t_doc t_env raw
     = \<lparr>stdout = [error_envelope rt t_env t_doc exc], exit_status = 2\<rparr>"
  unfolding run_real_def using assms by (rule main_guard_raises)

lemma run_onnx_raises:
  assumes "onnx_main rt w t_doc t_env raw = Inl exc" and "is_Exception exc"
  shows "run_onnx rt w t_doc t_env raw
     = \<lparr>stdout = [error_envelope rt t_env t_doc exc], exit_status = 2\<rparr>"
  unfolding run_onnx_def using assms by (rule main_guard_raises)

lemma run_real_returns:
  assumes "real_main rt backend t_doc t_env raw = Inr out"
  shows "run_real rt backend t_doc t_env raw = \<lparr>stdout = [out], exit_status = 0\<rparr>
     \<and> is_envelope out \<and> item_of out ''error'' = JNull"
  using real_main_returns [OF assms] main_guard_returns [OF assms, of rt t_env t_doc]
  by (auto simp: run_real_def is_envelope_def envelope_keys_def item_of_def dict_get_def)

lemma run_onnx_returns:
  assumes "onnx_main rt w t_doc t_env raw = Inr out"
  shows "run_onnx rt w t_doc t_env raw = \<lparr>stdout = [out], exit_status = 0\<rparr>
     \<and> is_envelope out \<and> item_of out ''error'' = JNull"
  using onnx_main_returns [OF assms] main_guard_returns [OF assms, of rt t_env t_doc]
  by (auto simp: run_onnx_def is_envelope_def envelope_keys_def item_of_def dict_get_def)

lemma run_baseline_raises:
  assumes "baseline_main rt st t_env t_doc raw = Inl exc"
  shows "run_baseline rt st t_env t_doc raw = \<lparr>stdout = [], exit_status = 1\<rparr>"
  using assms by (simp add: run_baseline_def)

lemma run_stub_raises:
  assumes "stub_main rt t_env t_doc raw = Inl exc"
  shows "run_stub rt t_env t_doc raw = \<lparr>stdout = [], exit_status = 1\<rparr>"
  using assms by (simp add: run_stub_def)

lemma run_baseline_returns:
  assumes "baseline_main rt st t_env t_doc raw = Inr (out, rc)"
  shows "run_baseline rt st t_env t_doc raw = \<lparr>stdout = [out], exit_status = 0\<rparr>
     \<and> is_envelope out \<and> item_of out ''error'' = JNull"
  using baseline_main_returns [OF assms] assms
  by (auto simp: run_baseline_def is_envelope_def envelope_keys_def item_of_def dict_get_def)

lemma run_stub_returns:
  assumes "stub_main rt t_env t_doc raw = Inr (out, rc)"
  shows "run_stub rt t_env t_doc raw = \<lparr>stdout = [out], exit_status = 0\<rparr>
     \<and> is_envelope out \<and> item_of out ''error'' = JNull"
  using stub_main_returns [OF assms] assms
  by (auto simp: run_stub_def is_envelope_def envelope_keys_def item_of_def dict_get_def)

text \<open>The protocol check of the baseline and of the stub.\<close>

lemma baseline_main_unsupported:
  assumes "json_loads rt raw = Inr (JObj d)"
    and "dict_get d ''protocol'' \<noteq> JStr ''axiograph_world_model_v1''"
  shows "baseline_main rt st t_env t_doc raw = Inl (SystemExit ''unsupported protocol'')"
  using assms by (simp add: baseline_main_def attr_get_def)

lemma stub_main_unsupported:
  assumes "json_loads rt raw = Inr (JObj d)"
    and "dict_get d ''protocol'' \<noteq> JStr ''axiograph_world_model_v1''"
  shows "stub_main rt t_env t_doc raw = Inl (SystemExit ''unsupported protocol'')"
  using assms by (simp add: stub_main_def attr_get_def)

lemma main_unsupported:
  assumes "dict_get d ''protocol''
      \<notin> set [JStr ''axiograph_llm_plugin_v2'', JStr ''axiograph_llm_plugin_v3'']"
  shows "main rt (JObj d) = Inr (JObj [(''error'', JStr ''unsupported protocol'')], 0)"
  using assms by (simp add: main_def attr_get_def respond_error_def)

lemma real_main_echoes_protocol:
  assumes "real_main rt backend t_doc t_env raw = Inr out"
    and "read_stdin_json rt raw = Inr (JObj d)"
  shows "item_of out ''protocol''
     = dict_get_default d ''protocol'' (JStr ''axiograph_world_model_v1'')"
  using real_main_returns [OF assms(1)] assms(2)
  by (auto simp: item_of_def dict_get_def)

lemma onnx_main_echoes_protocol:
  assumes "onnx_main rt w t_doc t_env raw = Inr out"
    and "read_stdin_json rt raw = Inr (JObj d)"
  shows "item_of out ''protocol''
     = dict_get_default d ''protocol'' (JStr ''axiograph_world_model_v1'')"
  using onnx_main_returns [OF assms(1)] assms(2)
  by (auto simp: item_of_def dict_get_def)

subsection \<open>Runs of the examples\<close>

lemma real_run_timed_out:
  "real_main (reading sample_request) (\<lambda>req. Inl (BackendError ''timed out'')) 17 18 ''request''
   = Inl (BackendError ''timed out'')"
  by code_simp

lemma real_run_returns:
  "\<not> isl (real_main (reading sample_request) (\<lambda>req. Inr (''ollama'', sample_document))
      17 18 ''request'')"
  by code_simp

lemma real_run_bogus_returns:
  "\<not> isl (real_main (reading bogus_request) (\<lambda>req. Inr (''ollama'', sample_document))
      17 18 ''request'')"
  by code_simp

lemma onnx_run_broken:
  "onnx_main (reading sample_request) broken_world 17 18 ''request''
   = Inl (RuntimeError ''onnxruntime is required'')"
  by code_simp

lemma onnx_run_returns:
  "\<not> isl (onnx_main (reading sample_request) sample_world 17 18 ''request'')"
  by code_simp

lemma onnx_run_proposals:
  "onnx_proposals (reading sample_request) sample_world sample_request
   = Inr (JStr ''t'', ''models/world_model_small.onnx'',
       [JObj [(''kind'', JStr ''Relation''),
              (''proposal_id'', JStr ''rel::knows::0''),
              (''confidence'', JFloat (Finite (19 / 20))),
              (''evidence'', JList []),
              (''public_rationale'', JStr ''onnx world model prediction''),
              (''metadata'', JObj [(''model_path'', JStr ''models/world_model_small.onnx'')]),
              (''schema_hint'', JNull),
              (''relation_id'', JStr ''rel::knows::0''),
              (''rel_type'', JStr ''knows''), (''source'', JStr ''a''),
              (''target'', JStr ''b''),
              (''attributes'', JObj [(''from'', JStr ''a''), (''to'', JStr ''b'')])]])"
  by code_simp

lemma baseline_run_missing_export:
  "baseline_main (reading missing_export_request) Oracle 18 17 ''request''
   = Inl (BackendError ''no such file'')"
  by code_simp

lemma baseline_run_returns:
  "\<not> isl (baseline_main (reading sample_request) Oracle 18 17 ''request'')"
  by code_simp

lemma stub_run_returns:
  "\<not> isl (stub_main (reading sample_request) 18 17 ''request'')"
  by code_simp

lemma reading_loads: "json_loads (reading req) raw = Inr req"
  by (simp add: reading_def)

lemma reading_stdin: "read_stdin_json (reading req) ''request'' = Inr req"
  by (simp add: read_stdin_json_def reading_def str_eval)

section \<open>Failure, success and the protocol check of the world-model plugins\<close>

text \<open>
  Claim C7, as the code has it. \<^verbatim>\<open>..._real.py\<close> and \<^verbatim>\<open>..._onnx.py\<close> run
  \<^verbatim>\<open>main\<close> under a handler: when \<^verbatim>\<open>main\<close> raises an \<^verbatim>\<open>Exception\<close>, the process
  writes one envelope with all six keys, the message of the exception as \<^verbatim>\<open>error\<close> and
  an empty \<^verbatim>\<open>proposals.proposals\<close>, and exits with status 2. The baseline and the
  transformer stub have no handler: when their \<^verbatim>\<open>main\<close> raises, nothing is written
  to standard output and the status is 1. In all four, when \<^verbatim>\<open>main\<close> returns, the
  process writes the envelope that \<^verbatim>\<open>main\<close> built, with \<^verbatim>\<open>error\<close> null, and exits
  with status 0.
\<close>

theorem failure_envelope_only_under_the_guard:
  "(real_main rt backend t_doc t_env raw = Inl exc \<and> is_Exception exc \<longrightarrow>
      run_real rt backend t_doc t_env raw
        = \<lparr>stdout = [error_envelope rt t_env t_doc exc], exit_status = 2\<rparr>)
   \<and> (onnx_main rt w t_doc t_env raw = Inl exc \<and> is_Exception exc \<longrightarrow>
      run_onnx rt w t_doc t_env raw
        = \<lparr>stdout = [error_envelope rt t_env t_doc exc], exit_status = 2\<rparr>)
   \<and> is_envelope (error_envelope rt t_env t_doc exc)
   \<and> item_of (error_envelope rt t_env t_doc exc) ''error'' = JStr (str_exc rt exc)
   \<and> item_of (item_of (error_envelope rt t_env t_doc exc) ''proposals'') ''proposals'' = JList []
   \<and> (baseline_main rt st t_env t_doc raw = Inl exc \<longrightarrow>
      run_baseline rt st t_env t_doc raw = \<lparr>stdout = [], exit_status = 1\<rparr>)
   \<and> (stub_main rt t_env t_doc raw = Inl exc \<longrightarrow>
      run_stub rt t_env t_doc raw = \<lparr>stdout = [], exit_status = 1\<rparr>)
   \<and> (real_main rt backend t_doc t_env raw = Inr out \<longrightarrow>
      run_real rt backend t_doc t_env raw = \<lparr>stdout = [out], exit_status = 0\<rparr>
      \<and> is_envelope out \<and> item_of out ''error'' = JNull)
   \<and> (onnx_main rt w t_doc t_env raw = Inr out \<longrightarrow>
      run_onnx rt w t_doc t_env raw = \<lparr>stdout = [out], exit_status = 0\<rparr>
      \<and> is_envelope out \<and> item_of out ''error'' = JNull)
   \<and> (baseline_main rt st t_env t_doc raw = Inr (out, rc) \<longrightarrow>
      run_baseline rt st t_env t_doc raw = \<lparr>stdout = [out], exit_status = 0\<rparr>
      \<and> is_envelope out \<and> item_of out ''error'' = JNull)
   \<and> (stub_main rt t_env t_doc raw = Inr (out, rc) \<longrightarrow>
      run_stub rt t_env t_doc raw = \<lparr>stdout = [out], exit_status = 0\<rparr>
      \<and> is_envelope out \<and> item_of out ''error'' = JNull)"
proof (intro conjI impI)
  show "is_envelope (error_envelope rt t_env t_doc exc)"
    and "item_of (error_envelope rt t_env t_doc exc) ''error'' = JStr (str_exc rt exc)"
    and "item_of (item_of (error_envelope rt t_env t_doc exc) ''proposals'') ''proposals''
      = JList []"
    using is_envelope_error_envelope [of rt t_env t_doc exc] by simp_all
next
  assume "real_main rt backend t_doc t_env raw = Inl exc \<and> is_Exception exc"
  then show "run_real rt backend t_doc t_env raw
      = \<lparr>stdout = [error_envelope rt t_env t_doc exc], exit_status = 2\<rparr>"
    by (simp add: run_real_raises)
next
  assume "onnx_main rt w t_doc t_env raw = Inl exc \<and> is_Exception exc"
  then show "run_onnx rt w t_doc t_env raw
      = \<lparr>stdout = [error_envelope rt t_env t_doc exc], exit_status = 2\<rparr>"
    by (simp add: run_onnx_raises)
next
  assume "baseline_main rt st t_env t_doc raw = Inl exc"
  then show "run_baseline rt st t_env t_doc raw = \<lparr>stdout = [], exit_status = 1\<rparr>"
    by (rule run_baseline_raises)
next
  assume "stub_main rt t_env t_doc raw = Inl exc"
  then show "run_stub rt t_env t_doc raw = \<lparr>stdout = [], exit_status = 1\<rparr>"
    by (rule run_stub_raises)
next
  assume a: "real_main rt backend t_doc t_env raw = Inr out"
  from run_real_returns [OF a]
  show "run_real rt backend t_doc t_env raw = \<lparr>stdout = [out], exit_status = 0\<rparr>"
    and "is_envelope out" and "item_of out ''error'' = JNull"
    by simp_all
next
  assume a: "onnx_main rt w t_doc t_env raw = Inr out"
  from run_onnx_returns [OF a]
  show "run_onnx rt w t_doc t_env raw = \<lparr>stdout = [out], exit_status = 0\<rparr>"
    and "is_envelope out" and "item_of out ''error'' = JNull"
    by simp_all
next
  assume a: "baseline_main rt st t_env t_doc raw = Inr (out, rc)"
  from run_baseline_returns [OF a]
  show "run_baseline rt st t_env t_doc raw = \<lparr>stdout = [out], exit_status = 0\<rparr>"
    and "is_envelope out" and "item_of out ''error'' = JNull"
    by simp_all
next
  assume a: "stub_main rt t_env t_doc raw = Inr (out, rc)"
  from run_stub_returns [OF a]
  show "run_stub rt t_env t_doc raw = \<lparr>stdout = [out], exit_status = 0\<rparr>"
    and "is_envelope out" and "item_of out ''error'' = JNull"
    by simp_all
qed

theorem failure_envelope_only_under_the_guard_witness:
  "run_real (reading sample_request) (\<lambda>req. Inl (BackendError ''timed out'')) 17 18 ''request''
     = \<lparr>stdout = [error_envelope (reading sample_request) 18 17 (BackendError ''timed out'')],
        exit_status = 2\<rparr>
   \<and> item_of (error_envelope (reading sample_request) 18 17 (BackendError ''timed out'')) ''error''
       = JStr ''timed out''
   \<and> run_onnx (reading sample_request) broken_world 17 18 ''request''
     = \<lparr>stdout = [error_envelope (reading sample_request) 18 17
                     (RuntimeError ''onnxruntime is required'')],
        exit_status = 2\<rparr>
   \<and> run_baseline (reading missing_export_request) Oracle 18 17 ''request''
       = \<lparr>stdout = [], exit_status = 1\<rparr>
   \<and> (\<exists>out. run_real (reading sample_request) (\<lambda>req. Inr (''ollama'', sample_document))
                17 18 ''request'' = \<lparr>stdout = [out], exit_status = 0\<rparr>
            \<and> is_envelope out \<and> item_of out ''error'' = JNull)
   \<and> (\<exists>out. run_onnx (reading sample_request) sample_world 17 18 ''request''
              = \<lparr>stdout = [out], exit_status = 0\<rparr>
            \<and> is_envelope out \<and> item_of out ''error'' = JNull)
   \<and> (\<exists>out. run_baseline (reading sample_request) Oracle 18 17 ''request''
              = \<lparr>stdout = [out], exit_status = 0\<rparr>
            \<and> is_envelope out \<and> item_of out ''error'' = JNull)
   \<and> (\<exists>out. run_stub (reading sample_request) 18 17 ''request''
              = \<lparr>stdout = [out], exit_status = 0\<rparr>
            \<and> is_envelope out \<and> item_of out ''error'' = JNull)"
proof -
  obtain o1 where o1: "real_main (reading sample_request)
      (\<lambda>req. Inr (''ollama'', sample_document)) 17 18 ''request'' = Inr o1"
    using real_run_returns
    by (cases "real_main (reading sample_request)
      (\<lambda>req. Inr (''ollama'', sample_document)) 17 18 ''request''") auto
  obtain o2 where o2: "onnx_main (reading sample_request) sample_world 17 18 ''request'' = Inr o2"
    using onnx_run_returns
    by (cases "onnx_main (reading sample_request) sample_world 17 18 ''request''") auto
  obtain o3 r3 where o3: "baseline_main (reading sample_request) Oracle 18 17 ''request''
      = Inr (o3, r3)"
    using baseline_run_returns
    by (cases "baseline_main (reading sample_request) Oracle 18 17 ''request''") auto
  obtain o4 r4 where o4: "stub_main (reading sample_request) 18 17 ''request'' = Inr (o4, r4)"
    using stub_run_returns
    by (cases "stub_main (reading sample_request) 18 17 ''request''") auto
  have a: "run_real (reading sample_request) (\<lambda>req. Inl (BackendError ''timed out''))
        17 18 ''request''
      = \<lparr>stdout = [error_envelope (reading sample_request) 18 17 (BackendError ''timed out'')],
        exit_status = 2\<rparr>"
    and a': "item_of (error_envelope (reading sample_request) 18 17 (BackendError ''timed out''))
        ''error'' = JStr ''timed out''"
    using failure_envelope_only_under_the_guard
      [where rt = "reading sample_request" and t_doc = 17 and t_env = 18 and raw = "''request''"
         and backend = "\<lambda>req. Inl (BackendError ''timed out'')"
         and exc = "BackendError ''timed out''"]
      real_run_timed_out
    by (simp_all add: str_exc_def)
  have b: "run_onnx (reading sample_request) broken_world 17 18 ''request''
      = \<lparr>stdout = [error_envelope (reading sample_request) 18 17
                     (RuntimeError ''onnxruntime is required'')],
        exit_status = 2\<rparr>"
    using failure_envelope_only_under_the_guard
      [where rt = "reading sample_request" and t_doc = 17 and t_env = 18 and raw = "''request''"
         and w = broken_world and exc = "RuntimeError ''onnxruntime is required''"]
      onnx_run_broken
    by simp
  have c: "run_baseline (reading missing_export_request) Oracle 18 17 ''request''
       = \<lparr>stdout = [], exit_status = 1\<rparr>"
    using failure_envelope_only_under_the_guard
      [where rt = "reading missing_export_request" and t_doc = 17 and t_env = 18
         and raw = "''request''" and st = Oracle and exc = "BackendError ''no such file''"]
      baseline_run_missing_export
    by simp
  have d: "run_real (reading sample_request) (\<lambda>req. Inr (''ollama'', sample_document))
                17 18 ''request'' = \<lparr>stdout = [o1], exit_status = 0\<rparr>
            \<and> is_envelope o1 \<and> item_of o1 ''error'' = JNull"
    using failure_envelope_only_under_the_guard
      [where rt = "reading sample_request" and t_doc = 17 and t_env = 18 and raw = "''request''"
         and backend = "\<lambda>req. Inr (''ollama'', sample_document)" and out = o1]
      o1
    by simp
  have e: "run_onnx (reading sample_request) sample_world 17 18 ''request''
              = \<lparr>stdout = [o2], exit_status = 0\<rparr>
            \<and> is_envelope o2 \<and> item_of o2 ''error'' = JNull"
    using failure_envelope_only_under_the_guard
      [where rt = "reading sample_request" and t_doc = 17 and t_env = 18 and raw = "''request''"
         and w = sample_world and out = o2]
      o2
    by simp
  have f: "run_baseline (reading sample_request) Oracle 18 17 ''request''
              = \<lparr>stdout = [o3], exit_status = 0\<rparr>
            \<and> is_envelope o3 \<and> item_of o3 ''error'' = JNull"
    using failure_envelope_only_under_the_guard
      [where rt = "reading sample_request" and t_doc = 17 and t_env = 18 and raw = "''request''"
         and st = Oracle and out = o3 and rc = r3]
      o3
    by simp
  have g: "run_stub (reading sample_request) 18 17 ''request''
              = \<lparr>stdout = [o4], exit_status = 0\<rparr>
            \<and> is_envelope o4 \<and> item_of o4 ''error'' = JNull"
    using failure_envelope_only_under_the_guard
      [where rt = "reading sample_request" and t_doc = 17 and t_env = 18 and raw = "''request''"
         and out = o4 and rc = r4]
      o4
    by simp
  from a a' b c d e f g show ?thesis by blast
qed

text \<open>
  The claim as stated fails for the baseline: the export file is missing, \<^verbatim>\<open>main\<close>
  raises, and the process ends with status 1 and no envelope.
\<close>

theorem baseline_failure_writes_nothing:
  "baseline_main (reading missing_export_request) Oracle 18 17 ''request''
     = Inl (BackendError ''no such file'')
   \<and> stdout (run_baseline (reading missing_export_request) Oracle 18 17 ''request'') = []
   \<and> exit_status (run_baseline (reading missing_export_request) Oracle 18 17 ''request'') = 1"
  by (simp add: baseline_run_missing_export run_baseline_def)

text \<open>
  Claim C6, as the code has it. The LLM plugin answers a request whose protocol is
  neither of its two with exactly \<^verbatim>\<open>{"error": "unsupported protocol"}\<close> and status 0.
  The baseline and the transformer stub, on a protocol other than
  \<^verbatim>\<open>axiograph_world_model_v1\<close>, raise \<^verbatim>\<open>SystemExit\<close> with the message: nothing is
  written to standard output and the status is 1. \<^verbatim>\<open>..._real.py\<close> and
  \<^verbatim>\<open>..._onnx.py\<close> do not look at the protocol: a response of theirs repeats the
  protocol of the request.
\<close>

theorem unsupported_protocol_by_plugin:
  "(dict_get d ''protocol''
        \<notin> set [JStr ''axiograph_llm_plugin_v2'', JStr ''axiograph_llm_plugin_v3''] \<longrightarrow>
      run_llm_plugin rt (JObj d)
        = \<lparr>stdout = [JObj [(''error'', JStr ''unsupported protocol'')]], exit_status = 0\<rparr>)
   \<and> (json_loads rt raw = Inr (JObj d)
        \<and> dict_get d ''protocol'' \<noteq> JStr ''axiograph_world_model_v1'' \<longrightarrow>
      baseline_main rt st t_env t_doc raw = Inl (SystemExit ''unsupported protocol'')
      \<and> run_baseline rt st t_env t_doc raw = \<lparr>stdout = [], exit_status = 1\<rparr>
      \<and> stub_main rt t_env t_doc raw = Inl (SystemExit ''unsupported protocol'')
      \<and> run_stub rt t_env t_doc raw = \<lparr>stdout = [], exit_status = 1\<rparr>)
   \<and> (read_stdin_json rt raw = Inr (JObj d)
        \<and> real_main rt backend t_doc t_env raw = Inr out \<longrightarrow>
      item_of out ''protocol''
        = dict_get_default d ''protocol'' (JStr ''axiograph_world_model_v1''))
   \<and> (read_stdin_json rt raw = Inr (JObj d)
        \<and> onnx_main rt w t_doc t_env raw = Inr out \<longrightarrow>
      item_of out ''protocol''
        = dict_get_default d ''protocol'' (JStr ''axiograph_world_model_v1''))"
proof (intro conjI impI)
  assume "dict_get d ''protocol''
      \<notin> set [JStr ''axiograph_llm_plugin_v2'', JStr ''axiograph_llm_plugin_v3'']"
  from main_unsupported [OF this, of rt]
  show "run_llm_plugin rt (JObj d)
      = \<lparr>stdout = [JObj [(''error'', JStr ''unsupported protocol'')]], exit_status = 0\<rparr>"
    by (simp add: run_llm_plugin_def)
next
  assume a: "json_loads rt raw = Inr (JObj d)
      \<and> dict_get d ''protocol'' \<noteq> JStr ''axiograph_world_model_v1''"
  then show b: "baseline_main rt st t_env t_doc raw = Inl (SystemExit ''unsupported protocol'')"
    by (simp add: baseline_main_unsupported)
  from a show s: "stub_main rt t_env t_doc raw = Inl (SystemExit ''unsupported protocol'')"
    by (simp add: stub_main_unsupported)
  from b show "run_baseline rt st t_env t_doc raw = \<lparr>stdout = [], exit_status = 1\<rparr>"
    by (rule run_baseline_raises)
  from s show "run_stub rt t_env t_doc raw = \<lparr>stdout = [], exit_status = 1\<rparr>"
    by (rule run_stub_raises)
next
  assume a: "read_stdin_json rt raw = Inr (JObj d)
      \<and> real_main rt backend t_doc t_env raw = Inr out"
  from a have r: "read_stdin_json rt raw = Inr (JObj d)"
    and m: "real_main rt backend t_doc t_env raw = Inr out"
    by simp_all
  from real_main_echoes_protocol [OF m r]
  show "item_of out ''protocol''
      = dict_get_default d ''protocol'' (JStr ''axiograph_world_model_v1'')" .
next
  assume a: "read_stdin_json rt raw = Inr (JObj d)
      \<and> onnx_main rt w t_doc t_env raw = Inr out"
  from a have r: "read_stdin_json rt raw = Inr (JObj d)"
    and m: "onnx_main rt w t_doc t_env raw = Inr out"
    by simp_all
  from onnx_main_echoes_protocol [OF m r]
  show "item_of out ''protocol''
      = dict_get_default d ''protocol'' (JStr ''axiograph_world_model_v1'')" .
qed

theorem unsupported_protocol_by_plugin_witness:
  "run_llm_plugin sample_runtime bogus_request
     = \<lparr>stdout = [JObj [(''error'', JStr ''unsupported protocol'')]], exit_status = 0\<rparr>
   \<and> baseline_main (reading bogus_request) Random 18 17 ''request''
       = Inl (SystemExit ''unsupported protocol'')
   \<and> run_baseline (reading bogus_request) Random 18 17 ''request''
       = \<lparr>stdout = [], exit_status = 1\<rparr>
   \<and> run_stub (reading bogus_request) 18 17 ''request'' = \<lparr>stdout = [], exit_status = 1\<rparr>
   \<and> (\<exists>out. real_main (reading bogus_request) (\<lambda>req. Inr (''ollama'', sample_document))
                17 18 ''request'' = Inr out
            \<and> item_of out ''protocol'' = JStr ''bogus'')"
proof -
  let ?d = "[(''protocol'', JStr ''bogus''), (''trace_id'', JStr ''t'')]"
  have p: "dict_get ?d ''protocol'' = JStr ''bogus''"
      "dict_get_default ?d ''protocol'' (JStr ''axiograph_world_model_v1'') = JStr ''bogus''"
    by (simp_all add: dict_get_def dict_get_default_def)
  obtain o1 where o1: "real_main (reading bogus_request)
      (\<lambda>req. Inr (''ollama'', sample_document)) 17 18 ''request'' = Inr o1"
    using real_run_bogus_returns
    by (cases "real_main (reading bogus_request)
      (\<lambda>req. Inr (''ollama'', sample_document)) 17 18 ''request''") auto
  have a: "run_llm_plugin sample_runtime bogus_request
     = \<lparr>stdout = [JObj [(''error'', JStr ''unsupported protocol'')]], exit_status = 0\<rparr>"
    using unsupported_protocol_by_plugin [where d = ?d and rt = sample_runtime] p
    by (simp add: bogus_request_def)
  have b: "baseline_main (reading bogus_request) Random 18 17 ''request''
       = Inl (SystemExit ''unsupported protocol'')
     \<and> run_baseline (reading bogus_request) Random 18 17 ''request''
       = \<lparr>stdout = [], exit_status = 1\<rparr>
     \<and> run_stub (reading bogus_request) 18 17 ''request'' = \<lparr>stdout = [], exit_status = 1\<rparr>"
    using unsupported_protocol_by_plugin
      [where d = ?d and rt = "reading bogus_request" and raw = "''request''" and st = Random
         and t_env = 18 and t_doc = 17]
      p reading_loads [of bogus_request "''request''"]
    by (simp add: bogus_request_def)
  have c: "item_of o1 ''protocol'' = JStr ''bogus''"
    using unsupported_protocol_by_plugin
      [where d = ?d and rt = "reading bogus_request" and raw = "''request''"
         and backend = "\<lambda>req. Inr (''ollama'', sample_document)"
         and t_env = 18 and t_doc = 17 and out = o1]
      p o1 reading_stdin [of bogus_request]
    by (simp add: bogus_request_def)
  from a b c o1 show ?thesis by blast
qed

text \<open>
  The claim as stated fails for the baseline: on the protocol \<^verbatim>\<open>bogus\<close> it writes no
  response and the status is 1.
\<close>

theorem baseline_unsupported_protocol_exits_1:
  "baseline_main (reading bogus_request) Oracle 18 17 ''request''
     = Inl (SystemExit ''unsupported protocol'')
   \<and> run_baseline (reading bogus_request) Oracle 18 17 ''request''
     = \<lparr>stdout = [], exit_status = 1\<rparr>"
  by (simp add: run_baseline_def baseline_main_def reading_loads bogus_request_def
      attr_get_def dict_get_def)

theorem onnx_confidence_is_clamped_witness:
  "\<exists>p out doc fixed.
      onnx_proposals (reading sample_request) sample_world sample_request
        = Inr (JStr ''t'', ''models/world_model_small.onnx'', [p])
      \<and> item_of p ''confidence'' = JFloat (Finite (95 / 100))
      \<and> list_all (confidence_within (55 / 100) (95 / 100)) [p]
      \<and> onnx_main (reading sample_request) sample_world 17 18 ''request'' = Inr out
      \<and> item_of out ''proposals'' = JObj doc
      \<and> dict_get doc ''proposals'' = JList fixed
      \<and> list_all (confidence_within (55 / 100) (95 / 100)) fixed"
proof -
  obtain out where out: "onnx_main (reading sample_request) sample_world 17 18 ''request''
      = Inr out"
    using onnx_run_returns
    by (cases "onnx_main (reading sample_request) sample_world 17 18 ''request''") auto
  note c = onnx_confidence_is_clamped
    [where rt = "reading sample_request" and w = sample_world and req = sample_request
       and t_doc = 17 and t_env = 18 and raw = "''request''" and out = out,
     unfolded onnx_run_proposals]
  from c out obtain doc fixed
    where "item_of out ''proposals'' = JObj doc" "dict_get doc ''proposals'' = JList fixed"
      "list_all (confidence_within (55 / 100) (95 / 100)) fixed"
    by blast
  moreover from c have "list_all (confidence_within (55 / 100) (95 / 100))
     [JObj [(''kind'', JStr ''Relation''),
              (''proposal_id'', JStr ''rel::knows::0''),
              (''confidence'', JFloat (Finite (19 / 20))),
              (''evidence'', JList []),
              (''public_rationale'', JStr ''onnx world model prediction''),
              (''metadata'', JObj [(''model_path'', JStr ''models/world_model_small.onnx'')]),
              (''schema_hint'', JNull),
              (''relation_id'', JStr ''rel::knows::0''),
              (''rel_type'', JStr ''knows''), (''source'', JStr ''a''),
              (''target'', JStr ''b''),
              (''attributes'', JObj [(''from'', JStr ''a''), (''to'', JStr ''b'')])]]"
    by blast
  moreover have "item_of (JObj [(''kind'', JStr ''Relation''),
              (''proposal_id'', JStr ''rel::knows::0''),
              (''confidence'', JFloat (Finite (19 / 20))),
              (''evidence'', JList []),
              (''public_rationale'', JStr ''onnx world model prediction''),
              (''metadata'', JObj [(''model_path'', JStr ''models/world_model_small.onnx'')]),
              (''schema_hint'', JNull),
              (''relation_id'', JStr ''rel::knows::0''),
              (''rel_type'', JStr ''knows''), (''source'', JStr ''a''),
              (''target'', JStr ''b''),
              (''attributes'', JObj [(''from'', JStr ''a''), (''to'', JStr ''b'')])])
        ''confidence'' = JFloat (Finite (95 / 100))"
    by (simp add: item_of_def dict_get_def)
  ultimately show ?thesis using out onnx_run_proposals by blast
qed

section \<open>What the first tool call leaves out\<close>

lemma find_node_to_query_run:
  "main sample_runtime (JObj [(''protocol'', JStr ''axiograph_llm_plugin_v2''),
       (''task'', JObj [(''kind'', JStr ''to_query''), (''question'', JStr ''find Node named b'')])])
   = Inr (JObj [
     (''query_ir_v1'', JObj [(''version'', JInt 1), (''select'', JList [JStr ''?x'']),
        (''where'', JList [
           JObj [(''kind'', JStr ''type''), (''term'', JStr ''?x''), (''type'', JStr ''Node'')],
           JObj [(''kind'', JStr ''attr_eq''), (''term'', JStr ''?x''),
                 (''key'', JStr ''name''), (''value'', JStr ''b'')]]),
        (''limit'', JInt 20)]),
     (''axql'', JStr (''select ?x where ?x is Node, ?x.name = '' @ [dquote] @ ''b'' @ [dquote]
         @ '' limit 20''))], 0)"
  by code_simp

lemma find_node_tool_loop_run:
  "main sample_runtime (JObj [(''protocol'', JStr ''axiograph_llm_plugin_v3''),
       (''task'', JObj [(''kind'', JStr ''tool_loop_step''),
                        (''question'', JStr ''find Node named b'')])])
   = Inr (JObj [(''tool_call'', JObj [(''name'', JStr ''axql_run''),
       (''args'', JObj [
          (''query_ir_v1'', JObj [(''version'', JInt 1), (''select'', JList [JStr ''?x'']),
             (''where'', JList [
               JObj [(''kind'', JStr ''type''), (''term'', JStr ''?x''), (''type'', JStr ''Node'')],
               JObj [(''kind'', JStr ''attr_eq''), (''term'', JStr ''?x''),
                     (''key'', JStr ''name''), (''value'', JStr ''b'')]]),
             (''limit'', JInt 20)]),
          (''limit'', JInt 25)])])], 0)"
  by code_simp

text \<open>
  The claim as stated fails: for the question \<^verbatim>\<open>find Node named b\<close> the payload of
  \<^verbatim>\<open>to_query\<close> has the keys \<^verbatim>\<open>query_ir_v1\<close> and \<^verbatim>\<open>axql\<close>, and the arguments of the
  first tool call have the keys \<^verbatim>\<open>query_ir_v1\<close> and \<^verbatim>\<open>limit\<close>: the \<^verbatim>\<open>axql\<close> text is
  not in the tool call, and the two objects differ.
\<close>

theorem tool_call_embeds_no_axql:
  "\<exists>payload args.
      main sample_runtime (JObj [(''protocol'', JStr ''axiograph_llm_plugin_v2''),
         (''task'', JObj [(''kind'', JStr ''to_query''),
                          (''question'', JStr ''find Node named b'')])])
        = Inr (JObj payload, 0)
      \<and> main sample_runtime (JObj [(''protocol'', JStr ''axiograph_llm_plugin_v3''),
         (''task'', JObj [(''kind'', JStr ''tool_loop_step''),
                          (''question'', JStr ''find Node named b'')])])
        = Inr (JObj [(''tool_call'',
             JObj [(''name'', JStr ''axql_run''), (''args'', JObj args)])], 0)
      \<and> map fst payload = [''query_ir_v1'', ''axql'']
      \<and> map fst args = [''query_ir_v1'', ''limit'']
      \<and> \<not> has_key (JObj args) ''axql''
      \<and> args \<noteq> payload"
  by (rule exI, rule exI, intro conjI, rule find_node_to_query_run,
      rule find_node_tool_loop_run)
     (simp add: has_key_def)+

section \<open>Where canonicalization raises\<close>

lemma real_run_null_confidence:
  "real_main (reading sample_request)
     (\<lambda>req. Inr (''ollama'',
        JObj [(''proposals'', JList [JObj [(''kind'', JStr ''Entity''), (''confidence'', JNull)]])]))
     17 18 ''request''
   = Inl TypeError"
  by code_simp

lemma canonical_proposal_null_confidence:
  "canonical_proposal rt rationale k trace_id idx
     [(''kind'', JStr ''Entity''), (''confidence'', JNull)] = Inl TypeError"
  by (rule canonical_proposal_raises)
     (simp add: raw_confidence_JObj dict_get_default_def)

text \<open>
  Claim C2 fails in the code. A map-shaped record whose confidence is \<^verbatim>\<open>null\<close> makes
  \<^verbatim>\<open>_normalize_proposals\<close> of \<^verbatim>\<open>..._real.py\<close> raise \<^verbatim>\<open>TypeError\<close>, whatever the
  runtime, the clock and the trace id: \<^verbatim>\<open>float(p.get("confidence", 0.7))\<close> has no
  check of the type, unlike the fields next to it. When the backend replies with such a
  record, the process writes the error envelope and ends with status 2. The copy of
  the function in \<^verbatim>\<open>..._onnx.py\<close> raises on the same record, and it raises
  \<^verbatim>\<open>AttributeError\<close> on a record that is not map-shaped, which it does not skip.
\<close>

theorem canonicalization_raises_on_null_confidence:
  "normalize_proposals rt now trace_id
     (JObj [(''proposals'', JList [JObj [(''kind'', JStr ''Entity''), (''confidence'', JNull)]])])
     = Inl TypeError
   \<and> run_real (reading sample_request)
       (\<lambda>req. Inr (''ollama'',
          JObj [(''proposals'', JList [JObj [(''kind'', JStr ''Entity''), (''confidence'', JNull)]])]))
       17 18 ''request''
     = \<lparr>stdout = [error_envelope (reading sample_request) 18 17 TypeError], exit_status = 2\<rparr>
   \<and> onnx_normalize_proposals rt now trace_id
       [JObj [(''kind'', JStr ''Entity''), (''confidence'', JNull)]]
     = Inl TypeError
   \<and> onnx_normalize_proposals rt now trace_id [JStr ''junk''] = Inl AttributeError"
proof (intro conjI)
  have "collect (real_body rt trace_id) (indexed_dicts 0 (input_proposals
      (JObj [(''proposals'', JList [JObj [(''kind'', JStr ''Entity''), (''confidence'', JNull)]])])))
    = Inl TypeError"
    by (simp add: input_proposals_def item_of_def dict_get_def indexed_dicts_Cons
        indexed_dicts_Nil real_body_def canonical_proposal_null_confidence)
  then show "normalize_proposals rt now trace_id
     (JObj [(''proposals'', JList [JObj [(''kind'', JStr ''Entity''), (''confidence'', JNull)]])])
     = Inl TypeError"
    by (rule normalize_proposals_raises)
next
  show "run_real (reading sample_request)
       (\<lambda>req. Inr (''ollama'',
          JObj [(''proposals'', JList [JObj [(''kind'', JStr ''Entity''), (''confidence'', JNull)]])]))
       17 18 ''request''
     = \<lparr>stdout = [error_envelope (reading sample_request) 18 17 TypeError], exit_status = 2\<rparr>"
    by (rule run_real_raises [OF real_run_null_confidence]) simp
next
  show "onnx_normalize_proposals rt now trace_id
       [JObj [(''kind'', JStr ''Entity''), (''confidence'', JNull)]]
     = Inl TypeError"
    by (simp add: onnx_normalize_proposals_def canonical_proposal_null_confidence)
next
  show "onnx_normalize_proposals rt now trace_id [JStr ''junk''] = Inl AttributeError"
    by (simp add: onnx_normalize_proposals_def)
qed

end
